theory Spec2Isabelle
  imports Main "HOL-Library.Sublist"
begin

section \<open>Data model\<close>

text \<open>
  The serial vault's admin service (package \<open>service\<close>) is a set of HTTP handlers over
  the \<open>Datastore\<close> interface of package \<open>datastore\<close>. A Go \<open>error\<close> is modelled by the
  text its \<open>Error()\<close> method returns; a Go result \<open>(v, err)\<close> whose value is only read
  when \<open>err == nil\<close> is a sum with the error on the left; a result \<open>(code, err)\<close> whose
  first component is read together with the error is kept as a pair. Go's \<open>int\<close> is
  modelled as \<open>int\<close>: the handlers compare and pass identifiers, they never compute
  with them.
\<close>

type_synonym error = string

text \<open>\<open>datastore.User\<close>: the handlers read its \<open>Username\<close> only.\<close>

record User =
  Username :: string

text \<open>
  \<open>datastore.Keypair\<close>, with the fields the handlers set (\<open>ID\<close>, \<open>AuthorityID\<close>,
  \<open>KeyID\<close>, \<open>SealedKey\<close>, \<open>Assertion\<close>) and the active flag of the data model. A Go
  struct literal leaves the fields it does not name at their zero value.
\<close>

record Keypair =
  ID :: int
  AuthorityID :: string
  KeyID :: string
  Active :: bool
  SealedKey :: string
  Assertion :: string

text \<open>\<open>KeypairWithPrivateKey\<close>: the JSON version of a keypair (part_000, lines 37-42).\<close>

record KeypairWithPrivateKey =
  ID :: int
  AuthorityID :: string
  PrivateKey :: string
  KeyName :: string

definition zeroKeypairWithPrivateKey :: KeypairWithPrivateKey where
  "zeroKeypairWithPrivateKey =
     \<lparr>KeypairWithPrivateKey.ID = 0, KeypairWithPrivateKey.AuthorityID = [],
      PrivateKey = [], KeyName = []\<rparr>"

text \<open>
  \<open>AssertionRequest\<close>: the JSON body of the attach-assertion request; the admin client
  posts \<open>{id: keyId, assertion: assertion}\<close> (models.js, \<open>Keypair.assertion\<close>).
\<close>

record AssertionRequest =
  ID :: int
  Assertion :: string

text \<open>\<open>datastore.KeypairStatus\<close>: one row of the generation tracker.\<close>

record KeypairStatus =
  AuthorityID :: string
  KeyName :: string
  Status :: string

text \<open>\<open>SigningLog\<close>: one entry of the signing log; \<open>Make\<close> is the brand (authority) that
  owns the entry.\<close>

record SigningLog =
  ID :: int
  Make :: string
  Model :: string
  SerialNumber :: string
  Fingerprint :: string
  Created :: int

text \<open>
  An assertion as \<open>asserts.Decode\<close> of the snapd library returns it: its type's name and
  its headers. \<open>HeaderString\<close> is the library's accessor: the empty string for a header
  that is absent.
\<close>

record asserts_Assertion =
  Type_Name :: string
  Headers :: "string \<rightharpoonup> string"

definition HeaderString :: "asserts_Assertion \<Rightarrow> string \<Rightarrow> string" where
  "HeaderString a name = (case Headers a name of None \<Rightarrow> [] | Some v \<Rightarrow> v)"

text \<open>\<open>asserts.PrivateKey\<close>: the handler reads \<open>PublicKey().ID()\<close> only.\<close>

datatype PrivateKey = OpenPGPPrivateKey (PublicKey_ID: string)

subsection \<open>Requests\<close>

text \<open>
  The body of a request as the handler's \<open>json.NewDecoder(r.Body).Decode(&v)\<close> sees it:
  \<open>NilBody\<close> when \<open>r.Body == nil\<close>, \<open>EmptyBody\<close> when the decoder returns \<open>io.EOF\<close>,
  \<open>BadBody err\<close> for any other decoding error, and \<open>JSONBody v\<close> when decoding succeeds.
  The decoder writes into a zero-valued struct, so a field the document omits stays at
  its zero value in \<open>v\<close>: an attach-assertion body without \<open>id\<close> decodes to a request
  whose \<open>ID\<close> is 0.
\<close>

datatype 'a body = NilBody | EmptyBody | BadBody error | JSONBody 'a

record 'a Request =
  Credentials :: string
  Vars :: "string \<rightharpoonup> string"
  Form :: "string \<rightharpoonup> string"
  Body :: "'a body"

text \<open>Indexing a Go \<open>map[string]string\<close> (\<open>mux.Vars(r)[k]\<close>) and \<open>r.FormValue(k)\<close>: the
  empty string when the key is absent.\<close>

definition index :: "(string \<rightharpoonup> string) \<Rightarrow> string \<Rightarrow> string" where
  "index m k = (case m k of None \<Rightarrow> [] | Some v \<Rightarrow> v)"

definition FormValue :: "'a Request \<Rightarrow> string \<Rightarrow> string" where
  "FormValue r k = index (Form r) k"

subsection \<open>Responses\<close>

text \<open>
  The JSON documents the handlers write: \<open>BooleanResponse\<close>, the keypairs response and
  \<open>SigningLogResponse\<close> (part_001, lines 28-34) share the fields \<open>Success\<close>,
  \<open>ErrorCode\<close>, \<open>ErrorSubcode\<close> and \<open>ErrorMessage\<close>. A nil slice and an empty one are
  both the empty list.
\<close>

datatype Response =
    BooleanResponse (Success: bool) (ErrorCode: string) (ErrorSubcode: string)
      (ErrorMessage: string)
  | KeypairsResponse (Success: bool) (ErrorCode: string) (ErrorSubcode: string)
      (ErrorMessage: string) (Keypairs: "Keypair list")
  | SigningLogResponse (Success: bool) (ErrorCode: string) (ErrorSubcode: string)
      (ErrorMessage: string) (Logs: "SigningLog list")

text \<open>
  \<open>http.ResponseWriter\<close> as the state the handler leaves behind: the header map, the
  status code once it is fixed, and the documents written, in order. The map is kept as
  the handler leaves it: a header set after \<open>WriteHeader\<close> is in the map, though net/http
  no longer sends it.
\<close>

record ResponseWriter =
  Header :: "string \<rightharpoonup> string"
  StatusCode :: "nat option"
  Written :: "Response list"

definition newResponseWriter :: ResponseWriter where
  "newResponseWriter = \<lparr>Header = Map.empty, StatusCode = None, Written = []\<rparr>"

abbreviation StatusOK :: nat where "StatusOK \<equiv> 200"
abbreviation StatusAccepted :: nat where "StatusAccepted \<equiv> 202"
abbreviation StatusBadRequest :: nat where "StatusBadRequest \<equiv> 400"
abbreviation StatusInternalServerError :: nat where "StatusInternalServerError \<equiv> 500"

definition Header_Set :: "string \<Rightarrow> string \<Rightarrow> ResponseWriter \<Rightarrow> ResponseWriter" where
  "Header_Set k v w = w\<lparr>Header := (Header w)(k \<mapsto> v)\<rparr>"

text \<open>\<open>w.WriteHeader(code)\<close>: the first call fixes the status; net/http ignores a later one.\<close>

definition WriteHeader :: "nat \<Rightarrow> ResponseWriter \<Rightarrow> ResponseWriter" where
  "WriteHeader code w =
     (case StatusCode w of None \<Rightarrow> w\<lparr>StatusCode := Some code\<rparr> | Some _ \<Rightarrow> w)"

text \<open>Writing a document: a write before any \<open>WriteHeader\<close> fixes the status at 200.\<close>

definition Write :: "Response \<Rightarrow> ResponseWriter \<Rightarrow> ResponseWriter" where
  "Write p w = (WriteHeader StatusOK w)\<lparr>Written := Written w @ [p]\<rparr>"

text \<open>
  Modelled from the spec: \<open>formatBooleanResponse\<close>, \<open>formatKeypairsResponse\<close> and
  \<open>formatSigningLogResponse\<close> (the service's response helpers) are not among the source
  files. The spec leaves JSON marshalling to the HTTP layer; each helper is modelled as
  writing the response document built from its arguments.
\<close>

definition formatBooleanResponse ::
  "bool \<Rightarrow> string \<Rightarrow> string \<Rightarrow> string \<Rightarrow> ResponseWriter \<Rightarrow> ResponseWriter" where
  "formatBooleanResponse success errorCode errorSubcode message w =
     Write (BooleanResponse success errorCode errorSubcode message) w"

definition formatKeypairsResponse ::
  "bool \<Rightarrow> string \<Rightarrow> string \<Rightarrow> string \<Rightarrow> Keypair list \<Rightarrow> ResponseWriter \<Rightarrow> ResponseWriter" where
  "formatKeypairsResponse success errorCode errorSubcode message keypairs w =
     Write (KeypairsResponse success errorCode errorSubcode message keypairs) w"

definition formatSigningLogResponse ::
  "bool \<Rightarrow> string \<Rightarrow> string \<Rightarrow> string \<Rightarrow> SigningLog list \<Rightarrow> ResponseWriter \<Rightarrow> ResponseWriter" where
  "formatSigningLogResponse success errorCode errorSubcode message logs w =
     Write (SigningLogResponse success errorCode errorSubcode message logs) w"

text \<open>The document a handler wrote last: its answer to the request.\<close>

definition lastWritten :: "ResponseWriter \<Rightarrow> Response option" where
  "lastWritten w = (case rev (Written w) of [] \<Rightarrow> None | p # _ \<Rightarrow> Some p)"

section \<open>The environment of the handlers\<close>

text \<open>
  The \<open>Datastore\<close> interface (database.go, lines 33-117), restricted to the methods the
  modelled handlers call, over a store of any type \<open>'s\<close>. A Go interface is a record of
  functions: every implementation, the PostgreSQL one and a test double alike, is a
  value of this type. The listing, lookup and check methods read the store; \<open>PutKeypair\<close>
  and \<open>UpdateKeypairAssertion\<close> return the store they leave behind. \<open>ListSigningLog\<close> is
  the method \<open>SigningLogHandler\<close> (part_001, line 53) calls.
\<close>

record 's Datastore =
  CheckUserInAccount :: "string \<Rightarrow> string \<Rightarrow> 's \<Rightarrow> bool"
  ListAllowedKeypairs :: "User \<Rightarrow> 's \<Rightarrow> error + Keypair list"
  PutKeypair :: "Keypair \<Rightarrow> 's \<Rightarrow> (string \<times> error option) \<times> 's"
  UpdateKeypairAssertion :: "Keypair \<Rightarrow> User \<Rightarrow> 's \<Rightarrow> (string \<times> error option) \<times> 's"
  GetKeypairStatus :: "string \<Rightarrow> string \<Rightarrow> 's \<Rightarrow> error + KeypairStatus"
  ListSigningLog :: "int \<Rightarrow> 's \<Rightarrow> error + SigningLog list"

text \<open>\<open>KeypairDatabase\<close>: the sealed key store; \<open>ImportSigningKey\<close> returns the private key
  and its sealed form, or an error.\<close>

record KeypairDatabase =
  ImportSigningKey :: "string \<Rightarrow> string \<Rightarrow> error + (PrivateKey \<times> string)"

text \<open>\<open>Env\<close> (database.go, lines 125-129), without the configuration.\<close>

record 's Env =
  DB :: "'s Datastore"
  KeypairDB :: KeypairDatabase

text \<open>
  What the handlers take from other packages, as parameters: the JWT check of the
  service, \<open>strings.TrimSpace\<close>, \<open>base64.StdEncoding.DecodeString\<close>, \<open>asserts.Decode\<close>,
  \<open>asserts.AccountKeyType.Name\<close>, \<open>strconv.Atoi\<close> and the constant \<open>MaxFromID\<close>.
\<close>

record Externals =
  checkIsAdminAndGetUserFromJWT :: "string \<Rightarrow> error + User"
  strings_TrimSpace :: "string \<Rightarrow> string"
  base64_DecodeString :: "string \<Rightarrow> error + string"
  asserts_Decode :: "string \<Rightarrow> error + asserts_Assertion"
  AccountKeyType_Name :: string
  strconv_Atoi :: "string \<Rightarrow> error + int"
  MaxFromID :: int

text \<open>
  A goroutine started with \<open>go\<close> and not yet run. The world a handler runs in is the
  store and the goroutines it has started: \<open>go f(x)\<close> returns at once and \<open>f\<close> runs
  later, on its own.
\<close>

datatype goroutine = GenerateKeypair string string string

record 's World =
  Store :: 's
  Goroutines :: "goroutine list"

section \<open>The keypair handlers (part_000)\<close>

text \<open>
  Every handler takes the request, the world and the response writer, and returns the
  writer and the world it leaves behind. Log output (\<open>logMessage\<close>) and the deferred
  \<open>r.Body.Close()\<close> are not modelled.
\<close>

subsection \<open>\<open>verifyKeypair\<close> (lines 341-392)\<close>

text \<open>
  Returns the decoded keypair and the flag \<open>ok\<close>; on every failure it has already written
  the error response. On a decoding error Go returns the struct as far as the decoder
  filled it; the callers read the keypair only when \<open>ok\<close> holds, and the model returns the
  zero value there.
\<close>

definition verifyKeypair ::
  "Externals \<Rightarrow> 's Env \<Rightarrow> KeypairWithPrivateKey Request \<Rightarrow> 's \<Rightarrow> ResponseWriter
     \<Rightarrow> (KeypairWithPrivateKey \<times> bool) \<times> ResponseWriter" where
  "verifyKeypair ext env r s w0 =
     (let w = Header_Set ''Content-Type'' ''application/json; charset=UTF-8'' w0 in
      case checkIsAdminAndGetUserFromJWT ext (Credentials r) of
        Inl err \<Rightarrow>
          ((zeroKeypairWithPrivateKey, False),
           formatBooleanResponse False ''error-auth'' [] [] w)
      | Inr authUser \<Rightarrow>
          (case Body r of
             NilBody \<Rightarrow>
               ((zeroKeypairWithPrivateKey, False),
                formatBooleanResponse False ''error-nil-data'' [] ''Uninitialized POST data''
                  (WriteHeader StatusBadRequest w))
           | EmptyBody \<Rightarrow>
               ((zeroKeypairWithPrivateKey, False),
                formatBooleanResponse False ''error-keypair-data'' [] ''No keypair data supplied''
                  (WriteHeader StatusBadRequest w))
           | BadBody err \<Rightarrow>
               ((zeroKeypairWithPrivateKey, False),
                formatBooleanResponse False ''error-keypair-json'' [] err
                  (WriteHeader StatusBadRequest w))
           | JSONBody decoded \<Rightarrow>
               (let keypairWithKey =
                      decoded\<lparr>KeypairWithPrivateKey.AuthorityID :=
                        strings_TrimSpace ext (KeypairWithPrivateKey.AuthorityID decoded)\<rparr> in
                if length (KeypairWithPrivateKey.AuthorityID keypairWithKey) = 0 then
                  ((keypairWithKey, False),
                   formatBooleanResponse False ''error-keypair-json'' []
                     ''The authority-id is mandatory'' (WriteHeader StatusBadRequest w))
                else if \<not> CheckUserInAccount (DB env) (Username authUser)
                            (KeypairWithPrivateKey.AuthorityID keypairWithKey) s then
                  ((keypairWithKey, False),
                   formatBooleanResponse False ''error-auth'' []
                     ''Your user does not have permissions for the Signing Authority''
                     (WriteHeader StatusBadRequest w))
                else ((keypairWithKey, True), w))))"

subsection \<open>\<open>KeypairListHandler\<close> (lines 55-85)\<close>

text \<open>The loop of lines 75-80: \<open>keypairs\<close> is the slice built so far.\<close>

fun filterKeypairs :: "string \<Rightarrow> Keypair list \<Rightarrow> Keypair list \<Rightarrow> Keypair list" where
  "filterKeypairs accountCode keypairs [] = keypairs"
| "filterKeypairs accountCode keypairs (k # userKeypairs) =
     (if Keypair.AuthorityID k = accountCode
      then filterKeypairs accountCode (keypairs @ [k]) userKeypairs
      else filterKeypairs accountCode keypairs userKeypairs)"

definition KeypairListHandler ::
  "Externals \<Rightarrow> 's Env \<Rightarrow> 'a Request \<Rightarrow> 's World \<Rightarrow> ResponseWriter
     \<Rightarrow> ResponseWriter \<times> 's World" where
  "KeypairListHandler ext env r world w0 =
     (let w = Header_Set ''Content-Type'' ''application/json; charset=UTF-8'' w0 in
      case checkIsAdminAndGetUserFromJWT ext (Credentials r) of
        Inl err \<Rightarrow> (formatKeypairsResponse False ''error-auth'' [] [] [] w, world)
      | Inr authUser \<Rightarrow>
          (let accountCode = index (Vars r) ''account_code'' in
           case ListAllowedKeypairs (DB env) authUser (Store world) of
             Inl err \<Rightarrow>
               (formatKeypairsResponse False ''error-fetch-keypairs'' [] err []
                  (WriteHeader StatusInternalServerError w), world)
           | Inr userKeypairs \<Rightarrow>
               (formatKeypairsResponse True [] [] []
                  (filterKeypairs accountCode [] userKeypairs) (WriteHeader StatusOK w),
                world)))"

subsection \<open>\<open>KeypairCreateHandler\<close> (lines 91-122)\<close>

text \<open>The key store that \<open>ImportSigningKey\<close> fills is held by \<open>KeypairDB\<close>, outside the
  database; the world records the database only.\<close>

definition KeypairCreateHandler ::
  "Externals \<Rightarrow> 's Env \<Rightarrow> KeypairWithPrivateKey Request \<Rightarrow> 's World \<Rightarrow> ResponseWriter
     \<Rightarrow> ResponseWriter \<times> 's World" where
  "KeypairCreateHandler ext env r world w0 =
     (case verifyKeypair ext env r (Store world) w0 of
        ((keypairWithKey, False), w) \<Rightarrow> (w, world)
      | ((keypairWithKey, True), w) \<Rightarrow>
          (case ImportSigningKey (KeypairDB env)
                  (KeypairWithPrivateKey.AuthorityID keypairWithKey) (PrivateKey keypairWithKey) of
             Inl err \<Rightarrow>
               (formatBooleanResponse False ''error-keypair-store'' [] err
                  (WriteHeader StatusBadRequest w), world)
           | Inr (privateKey, sealedPrivateKey) \<Rightarrow>
               (let keypair =
                      \<lparr>Keypair.ID = 0,
                       Keypair.AuthorityID = KeypairWithPrivateKey.AuthorityID keypairWithKey,
                       KeyID = PublicKey_ID privateKey, Active = False,
                       SealedKey = sealedPrivateKey, Keypair.Assertion = []\<rparr> in
                case PutKeypair (DB env) keypair (Store world) of
                  ((errorCode, Some err), s) \<Rightarrow>
                    (formatBooleanResponse False errorCode [] err
                       (WriteHeader StatusBadRequest w), world\<lparr>Store := s\<rparr>)
                | ((errorCode, None), s) \<Rightarrow>
                    (formatBooleanResponse True [] [] [] (WriteHeader StatusOK w),
                     world\<lparr>Store := s\<rparr>))))"

subsection \<open>\<open>KeypairAssertionHandler\<close> (lines 190-272)\<close>

text \<open>\<open>fmt.Sprintf("An assertion of type '%s' is required", name)\<close>.\<close>

definition assertionTypeRequired :: "string \<Rightarrow> string" where
  "assertionTypeRequired name =
     ''An assertion of type '' @ [CHR 0x27] @ name @ [CHR 0x27] @ '' is required''"

definition KeypairAssertionHandler ::
  "Externals \<Rightarrow> 's Env \<Rightarrow> AssertionRequest Request \<Rightarrow> 's World \<Rightarrow> ResponseWriter
     \<Rightarrow> ResponseWriter \<times> 's World" where
  "KeypairAssertionHandler ext env r world w0 =
     (let w = Header_Set ''Content-Type'' ''application/json; charset=UTF-8'' w0 in
      case checkIsAdminAndGetUserFromJWT ext (Credentials r) of
        Inl err \<Rightarrow> (formatBooleanResponse False ''error-auth'' [] [] w, world)
      | Inr authUser \<Rightarrow>
          (case Body r of
             NilBody \<Rightarrow>
               (formatBooleanResponse False ''error-nil-data'' [] ''Uninitialized POST data''
                  (WriteHeader StatusBadRequest w), world)
           | EmptyBody \<Rightarrow>
               (formatBooleanResponse False ''error-assertion-data'' []
                  ''No assertion data supplied'' (WriteHeader StatusBadRequest w), world)
           | BadBody err \<Rightarrow>
               (formatBooleanResponse False ''error-assertion-json'' [] err
                  (WriteHeader StatusBadRequest w), world)
           | JSONBody assertionRequest \<Rightarrow>
               if AssertionRequest.ID assertionRequest = 0 then
                 (formatBooleanResponse False ''invalid-keypair'' []
                    ''ID of keypair not provided'' (WriteHeader StatusBadRequest w), world)
               else
                 (case base64_DecodeString ext (AssertionRequest.Assertion assertionRequest) of
                    Inl err \<Rightarrow>
                      (formatBooleanResponse False ''decode-assertion'' [] err
                         (WriteHeader StatusBadRequest w), world)
                  | Inr decodedAssertion \<Rightarrow>
                      (case asserts_Decode ext decodedAssertion of
                         Inl err \<Rightarrow>
                           (formatBooleanResponse False ''decode-assertion'' [] err
                              (WriteHeader StatusBadRequest w), world)
                       | Inr assertion \<Rightarrow>
                           if Type_Name assertion \<noteq> AccountKeyType_Name ext then
                             (formatBooleanResponse False ''invalid-assertion'' []
                                (assertionTypeRequired (AccountKeyType_Name ext))
                                (WriteHeader StatusBadRequest w), world)
                           else
                             (let keypair =
                                    \<lparr>Keypair.ID = AssertionRequest.ID assertionRequest,
                                     Keypair.AuthorityID = HeaderString assertion ''account-id'',
                                     KeyID = HeaderString assertion ''public-key-sha3-384'',
                                     Active = False, SealedKey = [],
                                     Keypair.Assertion = decodedAssertion\<rparr> in
                              case UpdateKeypairAssertion (DB env) keypair authUser
                                     (Store world) of
                                ((errorCode, Some err), s) \<Rightarrow>
                                  (formatBooleanResponse False errorCode [] err
                                     (WriteHeader StatusBadRequest w), world\<lparr>Store := s\<rparr>)
                              | ((errorCode, None), s) \<Rightarrow>
                                  (formatBooleanResponse True [] [] [] w,
                                   world\<lparr>Store := s\<rparr>))))))"

subsection \<open>\<open>KeypairGenerateHandler\<close> (lines 278-292) and \<open>KeypairStatusHandler\<close>
  (lines 295-320)\<close>

text \<open>
  \<open>go datastore.GenerateKeypair(keypair.AuthorityID, "", keypair.KeyName)\<close> adds a
  goroutine to the world; the handler makes no other call on the generation tracker.
\<close>

definition KeypairGenerateHandler ::
  "Externals \<Rightarrow> 's Env \<Rightarrow> KeypairWithPrivateKey Request \<Rightarrow> 's World \<Rightarrow> ResponseWriter
     \<Rightarrow> ResponseWriter \<times> 's World" where
  "KeypairGenerateHandler ext env r world w0 =
     (case verifyKeypair ext env r (Store world) w0 of
        ((keypair, False), w) \<Rightarrow> (w, world)
      | ((keypair, True), w) \<Rightarrow>
          (let world' =
                 world\<lparr>Goroutines := Goroutines world @
                   [GenerateKeypair (KeypairWithPrivateKey.AuthorityID keypair) []
                      (KeypairWithPrivateKey.KeyName keypair)]\<rparr>;
               statusURL =
                 ''/v1/keypairs/status/'' @ KeypairWithPrivateKey.AuthorityID keypair
                   @ ''/'' @ KeypairWithPrivateKey.KeyName keypair
           in (formatBooleanResponse True [] [] statusURL
                 (Header_Set ''Location'' statusURL (WriteHeader StatusAccepted w)),
               world')))"

definition KeypairStatusHandler ::
  "Externals \<Rightarrow> 's Env \<Rightarrow> 'a Request \<Rightarrow> 's World \<Rightarrow> ResponseWriter
     \<Rightarrow> ResponseWriter \<times> 's World" where
  "KeypairStatusHandler ext env r world w =
     (let vars = Vars r in
      case checkIsAdminAndGetUserFromJWT ext (Credentials r) of
        Inl err \<Rightarrow> (formatBooleanResponse False ''error-auth'' [] [] w, world)
      | Inr authUser \<Rightarrow>
          if \<not> CheckUserInAccount (DB env) (Username authUser) (index vars ''authorityID'')
                 (Store world) then
            (formatBooleanResponse False ''error-auth'' []
               ''Your user does not have permissions for the Signing Authority''
               (WriteHeader StatusBadRequest w), world)
          else
            (case GetKeypairStatus (DB env) (index vars ''authorityID'')
                    (index vars ''keyName'') (Store world) of
               Inl err \<Rightarrow>
                 (formatBooleanResponse False ''error-keypair-json'' []
                    ''Cannot find the status of the keypair''
                    (WriteHeader StatusBadRequest w), world)
             | Inr ks \<Rightarrow> (formatBooleanResponse True [] [] (Status ks) w, world)))"

section \<open>The signing log handler (part_001)\<close>

definition SigningLogHandler ::
  "Externals \<Rightarrow> 's Env \<Rightarrow> 'a Request \<Rightarrow> 's World \<Rightarrow> ResponseWriter
     \<Rightarrow> ResponseWriter \<times> 's World" where
  "SigningLogHandler ext env r world w0 =
     (let w = Header_Set ''Content-Type'' ''application/json; charset=UTF-8'' w0;
          fromDateParam = FormValue r ''fromID'';
          fromID =
            (if length fromDateParam = 0 then MaxFromID ext
             else (case strconv_Atoi ext fromDateParam of
                     Inr n \<Rightarrow> n
                   | Inl err \<Rightarrow> MaxFromID ext))
      in case ListSigningLog (DB env) fromID (Store world) of
           Inl err \<Rightarrow>
             (formatSigningLogResponse False ''error-fetch-signinglog'' [] err []
                (WriteHeader StatusInternalServerError w), world)
         | Inr logs \<Rightarrow>
             (formatSigningLogResponse True [] [] [] logs (WriteHeader StatusOK w), world))"

section \<open>The device nonce issuer\<close>

text \<open>
  Modelled from the spec: \<open>ValidateDeviceNonce\<close> is declared in the \<open>Datastore\<close> interface
  (database.go, line 73); its implementation and the \<open>DeviceNonce\<close> type are not among
  the source files. The spec (section 4.6): \<open>Validate(nonceValue)\<close> fails with
  \<open>NonceNotFoundError\<close> if unknown, \<open>NonceExpiredError\<close> if past its time-to-live,
  \<open>NonceAlreadyUsedError\<close> if previously validated; on success the nonce is consumed.
  A nonce is \<open>{value, createdAt, used}\<close>, the table is keyed by the value, the clock and
  the time-to-live are arguments, and a nonce is past its time-to-live when the clock is
  after \<open>createdAt + ttl\<close>. The checks are made in the order the spec lists them.
\<close>

record DeviceNonce =
  CreatedAt :: int
  Used :: bool

datatype NonceError = NonceNotFoundError | NonceExpiredError | NonceAlreadyUsedError

definition ValidateDeviceNonce ::
  "int \<Rightarrow> int \<Rightarrow> string \<Rightarrow> (string \<rightharpoonup> DeviceNonce)
     \<Rightarrow> NonceError option \<times> (string \<rightharpoonup> DeviceNonce)" where
  "ValidateDeviceNonce ttl now nonce nonces =
     (case nonces nonce of
        None \<Rightarrow> (Some NonceNotFoundError, nonces)
      | Some n \<Rightarrow>
          if CreatedAt n + ttl < now then (Some NonceExpiredError, nonces)
          else if Used n then (Some NonceAlreadyUsedError, nonces)
          else (None, nonces(nonce \<mapsto> n\<lparr>Used := True\<rparr>)))"

section \<open>An in-memory datastore\<close>

text \<open>
  The PostgreSQL implementation of the \<open>Datastore\<close> methods is not among the source
  files. The theorems about the handlers hold for every implementation; the in-memory
  one below is the implementation they are evaluated at, and the one the keypair
  registry of the spec is modelled by.
\<close>

record MemStore =
  keypairs :: "Keypair list"
  accountUsers :: "(string \<times> string) list"
  keypairStatuses :: "KeypairStatus list"
  signingLogs :: "SigningLog list"

text \<open>
  Modelled from the spec: \<open>CheckUserInAccount\<close> is declared in the interface only. It is
  the capability \<open>IsPermitted(user, authorityID)\<close> of section 6, here the membership of
  the pair in the user-account links.
\<close>

definition memCheckUserInAccount :: "string \<Rightarrow> string \<Rightarrow> MemStore \<Rightarrow> bool" where
  "memCheckUserInAccount username authorityID s = ((username, authorityID) \<in> set (accountUsers s))"

text \<open>
  Modelled from the spec: \<open>ListAllowedKeypairs\<close> is declared in the interface only. The
  keypairs of the authorities the requester may see (section 4.2).
\<close>

definition memListAllowedKeypairs :: "User \<Rightarrow> MemStore \<Rightarrow> error + Keypair list" where
  "memListAllowedKeypairs authorization s =
     Inr (filter (\<lambda>k. memCheckUserInAccount (Username authorization) (Keypair.AuthorityID k) s)
            (keypairs s))"

text \<open>
  Modelled from the spec: \<open>PutKeypair\<close> is declared in the interface only. \<open>Put\<close> inserts
  a new row, rejecting it with \<open>DuplicateKeyError\<close> if (authorityID, keyID) already exists
  (section 4.2); the row's id is the next serial.
\<close>

definition memPutKeypair :: "Keypair \<Rightarrow> MemStore \<Rightarrow> (string \<times> error option) \<times> MemStore" where
  "memPutKeypair keypair s =
     (if list_ex (\<lambda>k. Keypair.AuthorityID k = Keypair.AuthorityID keypair \<and> KeyID k = KeyID keypair)
           (keypairs s)
      then ((''error-keypair-store'', Some ''DuplicateKeyError''), s)
      else (([], None),
            s\<lparr>keypairs := keypairs s @ [keypair\<lparr>Keypair.ID := int (length (keypairs s)) + 1\<rparr>]\<rparr>))"

text \<open>
  Modelled from the spec: \<open>UpdateKeypairAssertion\<close> is declared in the interface only.
  \<open>AttachAssertion(keypairID, validatedAssertion, requester)\<close> sets the account-key
  assertion text and overwrites keyID and authorityID, enforcing that the assertion's
  declared authority is one the requester is permitted to administer (section 4.2);
  its errors are \<open>NotAuthorizedError\<close> and \<open>NotFoundError\<close>.
\<close>

definition memUpdateKeypairAssertion ::
  "Keypair \<Rightarrow> User \<Rightarrow> MemStore \<Rightarrow> (string \<times> error option) \<times> MemStore" where
  "memUpdateKeypairAssertion keypair authorization s =
     (if \<not> memCheckUserInAccount (Username authorization) (Keypair.AuthorityID keypair) s
      then ((''error-auth'', Some ''NotAuthorizedError''), s)
      else if \<not> list_ex (\<lambda>k. Keypair.ID k = Keypair.ID keypair) (keypairs s)
      then ((''error-keypair-update'', Some ''NotFoundError''), s)
      else (([], None),
            s\<lparr>keypairs :=
                map (\<lambda>k. if Keypair.ID k = Keypair.ID keypair
                          then k\<lparr>Keypair.AuthorityID := Keypair.AuthorityID keypair,
                                 KeyID := KeyID keypair,
                                 Keypair.Assertion := Keypair.Assertion keypair\<rparr>
                          else k)
                  (keypairs s)\<rparr>))"

text \<open>
  Modelled from the spec: \<open>GetKeypairStatus\<close> is declared in the interface only.
  \<open>GetStatus(authorityID, keyName)\<close> is read-only (section 4.3); an error when the
  tracker has no entry for the pair.
\<close>

definition memGetKeypairStatus :: "string \<Rightarrow> string \<Rightarrow> MemStore \<Rightarrow> error + KeypairStatus" where
  "memGetKeypairStatus authorityID keyName s =
     (case find (\<lambda>ks. KeypairStatus.AuthorityID ks = authorityID \<and> KeypairStatus.KeyName ks = keyName)
             (keypairStatuses s) of
        None \<Rightarrow> Inl ''NotFoundError''
      | Some ks \<Rightarrow> Inr ks)"

text \<open>
  \<open>ListSigningLog(fromID)\<close> is called by \<open>SigningLogHandler\<close> and declared nowhere in the
  source files. Its only argument is the identifier: the in-memory one returns the
  entries whose id is below \<open>fromID\<close>.
\<close>

definition memListSigningLog :: "int \<Rightarrow> MemStore \<Rightarrow> error + SigningLog list" where
  "memListSigningLog fromID s = Inr (filter (\<lambda>l. SigningLog.ID l < fromID) (signingLogs s))"

definition memDatastore :: "MemStore Datastore" where
  "memDatastore =
     \<lparr>CheckUserInAccount = memCheckUserInAccount,
      ListAllowedKeypairs = memListAllowedKeypairs,
      PutKeypair = memPutKeypair,
      UpdateKeypairAssertion = memUpdateKeypairAssertion,
      GetKeypairStatus = memGetKeypairStatus,
      ListSigningLog = memListSigningLog\<rparr>"

definition memEnv :: "KeypairDatabase \<Rightarrow> MemStore Env" where
  "memEnv keypairDB = \<lparr>DB = memDatastore, KeypairDB = keypairDB\<rparr>"

section \<open>Concrete inputs\<close>

text \<open>
  The standard library functions at ASCII input: \<open>strings.TrimSpace\<close> removes leading
  and trailing white space; \<open>strconv.Atoi\<close> reads an optional sign and decimal digits
  into a 64-bit \<open>int\<close>.
\<close>

definition isSpace :: "char \<Rightarrow> bool" where
  "isSpace c = (c \<in> set [CHR 0x09, CHR 0x0A, CHR 0x0B, CHR 0x0C, CHR 0x0D, CHR '' ''])"

definition TrimSpace :: "string \<Rightarrow> string" where
  "TrimSpace s = rev (dropWhile isSpace (rev (dropWhile isSpace s)))"

definition isDigit :: "char \<Rightarrow> bool" where
  "isDigit c = (c \<in> set ''0123456789'')"

fun digitsValue :: "int \<Rightarrow> string \<Rightarrow> int" where
  "digitsValue n [] = n"
| "digitsValue n (c # cs) = digitsValue (10 * n + (int (of_char c) - 48)) cs"

definition Atoi :: "string \<Rightarrow> error + int" where
  "Atoi s =
     (let digits = (case s of [] \<Rightarrow> [] | c # cs \<Rightarrow> if c = CHR ''+'' \<or> c = CHR ''-'' then cs else s);
          negative = (case s of [] \<Rightarrow> False | c # cs \<Rightarrow> c = CHR ''-'')
      in if digits = [] \<or> \<not> list_all isDigit digits then Inl ''invalid syntax''
         else (let n = (if negative then - digitsValue 0 digits else digitsValue 0 digits)
               in if n < - (2 ^ 63) \<or> 2 ^ 63 - 1 < n then Inl ''value out of range''
                  else Inr n))"

text \<open>
  The other packages, as a test sees them: two users known to the JWT check, a base64
  decoder and an assertion decoder that know the texts of two assertions, and an importer
  that accepts one armored key.
\<close>

definition accountKeyAssertion :: asserts_Assertion where
  "accountKeyAssertion =
     \<lparr>Type_Name = ''account-key'',
      Headers = [''account-id'' \<mapsto> ''acme'', ''public-key-sha3-384'' \<mapsto> ''key-sha3'']\<rparr>"

definition modelAssertion :: asserts_Assertion where
  "modelAssertion =
     \<lparr>Type_Name = ''model'', Headers = [''brand-id'' \<mapsto> ''acme'', ''model'' \<mapsto> ''router'']\<rparr>"

definition testExternals :: Externals where
  "testExternals =
     \<lparr>checkIsAdminAndGetUserFromJWT =
        (\<lambda>token. if token = ''alice-jwt'' then Inr \<lparr>Username = ''alice''\<rparr>
                  else if token = ''bob-jwt'' then Inr \<lparr>Username = ''bob''\<rparr>
                  else Inl ''invalid token''),
      strings_TrimSpace = TrimSpace,
      base64_DecodeString =
        (\<lambda>text. if text = ''dHlwZTogYWNjb3VudC1rZXk='' then Inr ''type: account-key''
                 else if text = ''dHlwZTogbW9kZWw='' then Inr ''type: model''
                 else Inl ''illegal base64 data''),
      asserts_Decode =
        (\<lambda>text. if text = ''type: account-key'' then Inr accountKeyAssertion
                 else if text = ''type: model'' then Inr modelAssertion
                 else Inl ''assertion content/signature separator not found''),
      AccountKeyType_Name = ''account-key'',
      strconv_Atoi = Atoi,
      MaxFromID = 2147483647\<rparr>"

definition testKeypairDB :: KeypairDatabase where
  "testKeypairDB =
     \<lparr>ImportSigningKey =
        (\<lambda>authorityID armored.
           if armored = ''armored-private-key'' then Inr (OpenPGPPrivateKey ''key-sha3'', ''sealed'')
           else Inl ''cannot decode armored private key'')\<rparr>"

definition testEnv :: "MemStore Env" where
  "testEnv = memEnv testKeypairDB"

text \<open>A store with one keypair and one log entry for each of two authorities; alice
  administers \<open>acme\<close> and \<open>other\<close>, bob administers \<open>other\<close> only.\<close>

definition acmeKeypair :: Keypair where
  "acmeKeypair =
     \<lparr>Keypair.ID = 1, Keypair.AuthorityID = ''acme'', KeyID = ''acme-key'', Active = True,
      SealedKey = ''sealed-1'', Keypair.Assertion = []\<rparr>"

definition otherKeypair :: Keypair where
  "otherKeypair =
     \<lparr>Keypair.ID = 2, Keypair.AuthorityID = ''other'', KeyID = ''other-key'', Active = True,
      SealedKey = ''sealed-2'', Keypair.Assertion = []\<rparr>"

definition acmeLog :: SigningLog where
  "acmeLog =
     \<lparr>SigningLog.ID = 1, Make = ''acme'', Model = ''router'', SerialNumber = ''A1'',
      Fingerprint = ''f1'', Created = 100\<rparr>"

definition otherLog :: SigningLog where
  "otherLog =
     \<lparr>SigningLog.ID = 2, Make = ''other'', Model = ''camera'', SerialNumber = ''B7'',
      Fingerprint = ''f2'', Created = 200\<rparr>"

definition testStore :: MemStore where
  "testStore =
     \<lparr>keypairs = [acmeKeypair, otherKeypair],
      accountUsers = [(''alice'', ''acme''), (''alice'', ''other''), (''bob'', ''other'')],
      keypairStatuses = [],
      signingLogs = [acmeLog, otherLog]\<rparr>"

definition testWorld :: "MemStore World" where
  "testWorld = \<lparr>Store = testStore, Goroutines = []\<rparr>"

definition generateRequest :: "KeypairWithPrivateKey Request" where
  "generateRequest =
     \<lparr>Credentials = ''alice-jwt'', Vars = Map.empty, Form = Map.empty,
      Body = JSONBody \<lparr>KeypairWithPrivateKey.ID = 0, KeypairWithPrivateKey.AuthorityID = ''acme'',
                      PrivateKey = [], KeypairWithPrivateKey.KeyName = ''prod-key''\<rparr>\<rparr>"

definition statusRequest :: "unit Request" where
  "statusRequest =
     \<lparr>Credentials = ''alice-jwt'',
      Vars = [''authorityID'' \<mapsto> ''acme'', ''keyName'' \<mapsto> ''prod-key''],
      Form = Map.empty, Body = NilBody\<rparr>"

text \<open>The world once the worker of a first generate request has recorded its job.\<close>

definition generatingWorld :: "MemStore World" where
  "generatingWorld =
     \<lparr>Store = testStore\<lparr>keypairStatuses :=
          [\<lparr>KeypairStatus.AuthorityID = ''acme'', KeypairStatus.KeyName = ''prod-key'',
            Status = ''Generating''\<rparr>]\<rparr>,
      Goroutines = [GenerateKeypair ''acme'' [] ''prod-key'']\<rparr>"

text \<open>The requests the theorems are evaluated at.\<close>

definition listRequest :: "unit Request" where
  "listRequest =
     \<lparr>Credentials = ''alice-jwt'', Vars = [''account_code'' \<mapsto> ''acme''], Form = Map.empty,
      Body = NilBody\<rparr>"

definition createRequest :: "KeypairWithPrivateKey Request" where
  "createRequest =
     \<lparr>Credentials = ''alice-jwt'', Vars = Map.empty, Form = Map.empty,
      Body = JSONBody \<lparr>KeypairWithPrivateKey.ID = 0, KeypairWithPrivateKey.AuthorityID = '' acme '',
                      PrivateKey = ''not a key'', KeypairWithPrivateKey.KeyName = []\<rparr>\<rparr>"

definition zeroIdRequest :: "AssertionRequest Request" where
  "zeroIdRequest =
     \<lparr>Credentials = ''alice-jwt'', Vars = Map.empty, Form = Map.empty,
      Body = JSONBody \<lparr>AssertionRequest.ID = 0, AssertionRequest.Assertion = ''dHlwZTogYWNjb3VudC1rZXk=''\<rparr>\<rparr>"

definition badFromIDRequest :: "unit Request" where
  "badFromIDRequest =
     \<lparr>Credentials = ''bob-jwt'', Vars = Map.empty, Form = [''fromID'' \<mapsto> ''12x''],
      Body = NilBody\<rparr>"

definition attachRequest :: "AssertionRequest Request" where
  "attachRequest =
     \<lparr>Credentials = ''alice-jwt'', Vars = Map.empty, Form = Map.empty,
      Body = JSONBody \<lparr>AssertionRequest.ID = 2, AssertionRequest.Assertion = ''dHlwZTogYWNjb3VudC1rZXk=''\<rparr>\<rparr>"

text \<open>A nonce table with one nonce, issued at time 100 and not yet used.\<close>

definition testNonces :: "string \<rightharpoonup> DeviceNonce" where
  "testNonces = [''n1'' \<mapsto> \<lparr>CreatedAt = 100, Used = False\<rparr>]"

text \<open>The keypairs of the answer: those of the keypairs response written last.\<close>

definition returnedKeypairs :: "ResponseWriter \<Rightarrow> Keypair list" where
  "returnedKeypairs w =
     (case lastWritten w of
        Some (KeypairsResponse success code subcode message ks) \<Rightarrow> ks
      | _ \<Rightarrow> [])"

definition modelRequest :: "AssertionRequest Request" where
  "modelRequest =
     \<lparr>Credentials = ''alice-jwt'', Vars = Map.empty, Form = Map.empty,
      Body = JSONBody \<lparr>AssertionRequest.ID = 1, AssertionRequest.Assertion = ''dHlwZTogbW9kZWw=''\<rparr>\<rparr>"

definition logRequest :: "unit Request" where
  "logRequest =
     \<lparr>Credentials = ''bob-jwt'', Vars = Map.empty, Form = Map.empty, Body = NilBody\<rparr>"

section \<open>Properties of the handlers\<close>

subsection \<open>What a handler wrote last\<close>

lemma lastWritten_Write: "lastWritten (Write p w) = Some p"
  by (simp add: lastWritten_def Write_def)

lemma lastWritten_formatBooleanResponse:
  "lastWritten (formatBooleanResponse s c sc m w) = Some (BooleanResponse s c sc m)"
  by (simp add: formatBooleanResponse_def lastWritten_Write)

lemma returnedKeypairs_format:
  "returnedKeypairs (formatKeypairsResponse s c sc m ks w) = ks"
  by (simp add: returnedKeypairs_def formatKeypairsResponse_def lastWritten_Write)

subsection \<open>\<open>verifyKeypair\<close>\<close>

text \<open>When \<open>verifyKeypair\<close> accepts, the body was decoded, the keypair is the decoded one
  with its authority trimmed, and nothing but the content type was written.\<close>

lemma verifyKeypair_ok:
  assumes "verifyKeypair ext env r s w0 = ((kp, True), w)"
  shows "\<exists>decoded. Body r = JSONBody decoded \<and>
           kp = decoded\<lparr>KeypairWithPrivateKey.AuthorityID :=
                  strings_TrimSpace ext (KeypairWithPrivateKey.AuthorityID decoded)\<rparr> \<and>
           w = Header_Set ''Content-Type'' ''application/json; charset=UTF-8'' w0"
  using assms
  by (auto simp: verifyKeypair_def Let_def split: sum.splits body.splits if_splits)

text \<open>When it refuses, it has written a failure.\<close>

lemma verifyKeypair_failed:
  assumes "verifyKeypair ext env r s w0 = ((kp, False), w)"
  shows "\<exists>code msg. lastWritten w = Some (BooleanResponse False code [] msg)"
  using assms
  by (auto simp: verifyKeypair_def Let_def lastWritten_formatBooleanResponse
           split: sum.splits body.splits if_splits)

text \<open>It calls \<open>CheckUserInAccount\<close> and no other method of the datastore.\<close>

lemma verifyKeypair_PutKeypair:
  "verifyKeypair ext (env\<lparr>DB := (DB env)\<lparr>PutKeypair := put\<rparr>\<rparr>) r s w0
     = verifyKeypair ext env r s w0"
  by (simp add: verifyKeypair_def Let_def split: sum.splits body.splits)

lemma verifyKeypair_GetKeypairStatus:
  "verifyKeypair ext (env\<lparr>DB := (DB env)\<lparr>GetKeypairStatus := get\<rparr>\<rparr>) r s w0
     = verifyKeypair ext env r s w0"
  by (simp add: verifyKeypair_def Let_def split: sum.splits body.splits)

subsection \<open>The test inputs\<close>

lemma TrimSpace_acme: "TrimSpace '' acme '' = ''acme''"
  by (simp add: TrimSpace_def isSpace_def)

lemma Atoi_12x: "Atoi ''12x'' = Inl ''invalid syntax''"
  by (simp add: Atoi_def isDigit_def)

lemma modelRequest_facts:
  "checkIsAdminAndGetUserFromJWT testExternals (Credentials modelRequest)
     = Inr \<lparr>Username = ''alice''\<rparr>"
  "Body modelRequest
     = JSONBody \<lparr>AssertionRequest.ID = 1, AssertionRequest.Assertion = ''dHlwZTogbW9kZWw=''\<rparr>"
  "base64_DecodeString testExternals ''dHlwZTogbW9kZWw='' = Inr ''type: model''"
  "asserts_Decode testExternals ''type: model'' = Inr modelAssertion"
  "Type_Name modelAssertion = ''model''"
  "AccountKeyType_Name testExternals = ''account-key''"
  by (simp_all add: testExternals_def modelRequest_def modelAssertion_def)

lemma testWorld_signing_log:
  "ListSigningLog (DB testEnv) (MaxFromID testExternals) (Store testWorld)
     = Inr [acmeLog, otherLog]"
  by (simp add: testEnv_def memEnv_def memDatastore_def memListSigningLog_def testExternals_def
        testWorld_def testStore_def acmeLog_def otherLog_def)

subsection \<open>\<open>KeypairGenerateHandler\<close>\<close>

text \<open>An accepted request: the answer, and the goroutine added to the world.\<close>

lemma KeypairGenerateHandler_accepted:
  assumes "verifyKeypair ext env r (Store world) w0 = ((kp, True), w)"
  shows "KeypairGenerateHandler ext env r world w0
           = (formatBooleanResponse True [] []
                (''/v1/keypairs/status/'' @ KeypairWithPrivateKey.AuthorityID kp @ ''/''
                   @ KeypairWithPrivateKey.KeyName kp)
                (Header_Set ''Location''
                   (''/v1/keypairs/status/'' @ KeypairWithPrivateKey.AuthorityID kp @ ''/''
                      @ KeypairWithPrivateKey.KeyName kp)
                   (WriteHeader StatusAccepted w)),
              world\<lparr>Goroutines := Goroutines world @
                [GenerateKeypair (KeypairWithPrivateKey.AuthorityID kp) []
                   (KeypairWithPrivateKey.KeyName kp)]\<rparr>)"
  using assms by (simp add: KeypairGenerateHandler_def Let_def)

text \<open>The handler never writes to the store.\<close>

lemma KeypairGenerateHandler_Store:
  "Store (snd (KeypairGenerateHandler ext env r world w0)) = Store world"
  by (simp add: KeypairGenerateHandler_def Let_def split: prod.splits bool.splits)

lemma StatusCode_accepted:
  "StatusCode (formatBooleanResponse s c sc m
                 (Header_Set k v (WriteHeader code (Header_Set k' v' newResponseWriter))))
     = Some code"
  by (simp add: formatBooleanResponse_def Write_def Header_Set_def WriteHeader_def
        newResponseWriter_def)

text \<open>The generate and status requests of the tests.\<close>

lemma TrimSpace_acme_trimmed: "TrimSpace ''acme'' = ''acme''"
  by (simp add: TrimSpace_def isSpace_def)

lemma generateRequest_verified:
  "Store world = testStore\<lparr>keypairStatuses := ks\<rparr> \<Longrightarrow>
   verifyKeypair testExternals testEnv generateRequest (Store world) newResponseWriter
     = ((\<lparr>KeypairWithPrivateKey.ID = 0, KeypairWithPrivateKey.AuthorityID = ''acme'',
          PrivateKey = [], KeypairWithPrivateKey.KeyName = ''prod-key''\<rparr>, True),
        Header_Set ''Content-Type'' ''application/json; charset=UTF-8'' newResponseWriter)"
  by (simp add: verifyKeypair_def Let_def generateRequest_def testExternals_def TrimSpace_acme_trimmed
        testEnv_def memEnv_def memDatastore_def memCheckUserInAccount_def testStore_def)

lemma generatingWorld_status:
  "GetKeypairStatus (DB testEnv) ''acme'' ''prod-key'' (Store generatingWorld)
     = Inr \<lparr>KeypairStatus.AuthorityID = ''acme'', KeypairStatus.KeyName = ''prod-key'',
            Status = ''Generating''\<rparr>"
  by (simp add: testEnv_def memEnv_def memDatastore_def memGetKeypairStatus_def
        generatingWorld_def)

lemma statusRequest_facts:
  "checkIsAdminAndGetUserFromJWT testExternals (Credentials statusRequest)
     = Inr \<lparr>Username = ''alice''\<rparr>"
  "index (Vars statusRequest) ''authorityID'' = ''acme''"
  "index (Vars statusRequest) ''keyName'' = ''prod-key''"
  by (simp_all add: testExternals_def statusRequest_def index_def)

lemma testWorld_facts:
  "GetKeypairStatus (DB testEnv) ''acme'' ''prod-key'' (Store testWorld) = Inl ''NotFoundError''"
  "CheckUserInAccount (DB testEnv) ''alice'' ''acme'' (Store testWorld)"
  "Goroutines testWorld = []"
  by (simp_all add: testEnv_def memEnv_def memDatastore_def memGetKeypairStatus_def
        memCheckUserInAccount_def testWorld_def testStore_def)

subsection \<open>C1: a second generate request while the first job is generating\<close>

text \<open>
  C1, as amended. A generate-keypair request is never rejected for a job in progress:
  every request that \<open>verifyKeypair\<close> accepts is answered with status 202 and the
  status URL, and starts a background worker of its own, whatever the generation tracker
  holds for (authorityID, keyName). The handler makes no check on the tracker: its
  outcome does not depend on \<open>GetKeypairStatus\<close>.
\<close>

theorem KeypairGenerateHandler_always_starts_worker:
  assumes v: "verifyKeypair ext env r (Store world) w0 = ((kp, True), w)"
  shows "KeypairGenerateHandler ext env r world w0
           = (formatBooleanResponse True [] []
                (''/v1/keypairs/status/'' @ KeypairWithPrivateKey.AuthorityID kp @ ''/''
                   @ KeypairWithPrivateKey.KeyName kp)
                (Header_Set ''Location''
                   (''/v1/keypairs/status/'' @ KeypairWithPrivateKey.AuthorityID kp @ ''/''
                      @ KeypairWithPrivateKey.KeyName kp)
                   (WriteHeader StatusAccepted w)),
              world\<lparr>Goroutines := Goroutines world @
                [GenerateKeypair (KeypairWithPrivateKey.AuthorityID kp) []
                   (KeypairWithPrivateKey.KeyName kp)]\<rparr>) \<and>
         KeypairGenerateHandler ext (env\<lparr>DB := (DB env)\<lparr>GetKeypairStatus := get\<rparr>\<rparr>) r world w0
           = KeypairGenerateHandler ext env r world w0"
proof -
  from v have v': "verifyKeypair ext (env\<lparr>DB := (DB env)\<lparr>GetKeypairStatus := get\<rparr>\<rparr>) r
                     (Store world) w0 = ((kp, True), w)"
    by (simp add: verifyKeypair_GetKeypairStatus)
  from KeypairGenerateHandler_accepted[OF v] KeypairGenerateHandler_accepted[OF v']
  show ?thesis by simp
qed

text \<open>Alice's second request for (acme, prod-key), while the tracker says \<open>Generating\<close>.\<close>

theorem KeypairGenerateHandler_always_starts_worker_witness:
  "fst (verifyKeypair testExternals testEnv generateRequest (Store generatingWorld)
          newResponseWriter)
     = (\<lparr>KeypairWithPrivateKey.ID = 0, KeypairWithPrivateKey.AuthorityID = ''acme'',
          PrivateKey = [], KeypairWithPrivateKey.KeyName = ''prod-key''\<rparr>, True) \<and>
   lastWritten (fst (KeypairGenerateHandler testExternals testEnv generateRequest
                       generatingWorld newResponseWriter))
     = Some (BooleanResponse True [] [] ''/v1/keypairs/status/acme/prod-key'') \<and>
   Goroutines (snd (KeypairGenerateHandler testExternals testEnv generateRequest
                      generatingWorld newResponseWriter))
     = [GenerateKeypair ''acme'' [] ''prod-key'', GenerateKeypair ''acme'' [] ''prod-key'']"
proof -
  have s: "Store generatingWorld = testStore\<lparr>keypairStatuses :=
          [\<lparr>KeypairStatus.AuthorityID = ''acme'', KeypairStatus.KeyName = ''prod-key'',
            Status = ''Generating''\<rparr>]\<rparr>"
    by (simp add: generatingWorld_def)
  note v = generateRequest_verified[OF s]
  have g: "Goroutines generatingWorld = [GenerateKeypair ''acme'' [] ''prod-key'']"
    by (simp add: generatingWorld_def)
  from KeypairGenerateHandler_always_starts_worker[OF v] v g
  show ?thesis by (simp add: lastWritten_formatBooleanResponse)
qed

text \<open>
  The claim as stated fails: with the first job still \<open>Generating\<close> and its worker
  started, the second request for the same pair is accepted with status 202 and a second
  worker is started.
\<close>

theorem KeypairGenerateHandler_second_request_counterexample:
  "GetKeypairStatus (DB testEnv) ''acme'' ''prod-key'' (Store generatingWorld)
     = Inr \<lparr>KeypairStatus.AuthorityID = ''acme'', KeypairStatus.KeyName = ''prod-key'',
            Status = ''Generating''\<rparr> \<and>
   Goroutines generatingWorld = [GenerateKeypair ''acme'' [] ''prod-key''] \<and>
   lastWritten (fst (KeypairGenerateHandler testExternals testEnv generateRequest
                       generatingWorld newResponseWriter))
     = Some (BooleanResponse True [] [] ''/v1/keypairs/status/acme/prod-key'') \<and>
   StatusCode (fst (KeypairGenerateHandler testExternals testEnv generateRequest
                      generatingWorld newResponseWriter)) = Some StatusAccepted \<and>
   Goroutines (snd (KeypairGenerateHandler testExternals testEnv generateRequest
                      generatingWorld newResponseWriter))
     = [GenerateKeypair ''acme'' [] ''prod-key'', GenerateKeypair ''acme'' [] ''prod-key'']"
proof -
  have s: "Store generatingWorld = testStore\<lparr>keypairStatuses :=
          [\<lparr>KeypairStatus.AuthorityID = ''acme'', KeypairStatus.KeyName = ''prod-key'',
            Status = ''Generating''\<rparr>]\<rparr>"
    by (simp add: generatingWorld_def)
  have g: "Goroutines generatingWorld = [GenerateKeypair ''acme'' [] ''prod-key'']"
    by (simp add: generatingWorld_def)
  note h = KeypairGenerateHandler_accepted[OF generateRequest_verified[OF s]]
  show ?thesis
    by (simp add: h g generatingWorld_status lastWritten_formatBooleanResponse
          StatusCode_accepted)
qed

subsection \<open>C2: the tracker entry and the first status poll\<close>

text \<open>
  C2, as amended. For every accepted generate-keypair request, the handler returns with
  the store, and so the generation tracker, as it found it: it creates no tracker entry
  and only starts the background worker. A status poll that arrives once the request has
  returned and before the worker has recorded the job reads the unchanged tracker: when
  it held no entry for (authorityID, keyName), the poll of a permitted user is answered
  with \<open>error-keypair-json\<close>, "Cannot find the status of the keypair".
\<close>

theorem KeypairGenerateHandler_leaves_tracker:
  assumes v: "verifyKeypair ext env r (Store world) w0 = ((kp, True), w)"
      and none: "GetKeypairStatus (DB env) (KeypairWithPrivateKey.AuthorityID kp)
                   (KeypairWithPrivateKey.KeyName kp) (Store world) = Inl e"
      and auth: "checkIsAdminAndGetUserFromJWT ext (Credentials q) = Inr authUser"
      and perm: "CheckUserInAccount (DB env) (Username authUser)
                   (KeypairWithPrivateKey.AuthorityID kp) (Store world)"
      and a: "index (Vars q) ''authorityID'' = KeypairWithPrivateKey.AuthorityID kp"
      and k: "index (Vars q) ''keyName'' = KeypairWithPrivateKey.KeyName kp"
  shows "Store (snd (KeypairGenerateHandler ext env r world w0)) = Store world \<and>
         Goroutines (snd (KeypairGenerateHandler ext env r world w0))
           = Goroutines world @ [GenerateKeypair (KeypairWithPrivateKey.AuthorityID kp) []
                                   (KeypairWithPrivateKey.KeyName kp)] \<and>
         KeypairStatusHandler ext env q (snd (KeypairGenerateHandler ext env r world w0)) v0
           = (formatBooleanResponse False ''error-keypair-json'' []
                ''Cannot find the status of the keypair'' (WriteHeader StatusBadRequest v0),
              snd (KeypairGenerateHandler ext env r world w0))"
proof -
  have s: "Store (snd (KeypairGenerateHandler ext env r world w0)) = Store world"
    by (rule KeypairGenerateHandler_Store)
  have g: "Goroutines (snd (KeypairGenerateHandler ext env r world w0))
           = Goroutines world @ [GenerateKeypair (KeypairWithPrivateKey.AuthorityID kp) []
                                   (KeypairWithPrivateKey.KeyName kp)]"
    by (simp add: KeypairGenerateHandler_accepted[OF v])
  have p: "KeypairStatusHandler ext env q (snd (KeypairGenerateHandler ext env r world w0)) v0
           = (formatBooleanResponse False ''error-keypair-json'' []
                ''Cannot find the status of the keypair'' (WriteHeader StatusBadRequest v0),
              snd (KeypairGenerateHandler ext env r world w0))"
    using none auth perm by (simp add: KeypairStatusHandler_def Let_def s a k)
  from s g p show ?thesis by simp
qed

text \<open>Alice generates (acme, prod-key) in a world with an empty tracker and polls at once.\<close>

theorem KeypairGenerateHandler_leaves_tracker_witness:
  "fst (verifyKeypair testExternals testEnv generateRequest (Store testWorld) newResponseWriter)
     = (\<lparr>KeypairWithPrivateKey.ID = 0, KeypairWithPrivateKey.AuthorityID = ''acme'',
          PrivateKey = [], KeypairWithPrivateKey.KeyName = ''prod-key''\<rparr>, True) \<and>
   GetKeypairStatus (DB testEnv) ''acme'' ''prod-key'' (Store testWorld) = Inl ''NotFoundError'' \<and>
   Store (snd (KeypairGenerateHandler testExternals testEnv generateRequest testWorld
                 newResponseWriter)) = Store testWorld \<and>
   Goroutines (snd (KeypairGenerateHandler testExternals testEnv generateRequest testWorld
                      newResponseWriter)) = [GenerateKeypair ''acme'' [] ''prod-key''] \<and>
   lastWritten (fst (KeypairStatusHandler testExternals testEnv statusRequest
                       (snd (KeypairGenerateHandler testExternals testEnv generateRequest
                               testWorld newResponseWriter))
                       newResponseWriter))
     = Some (BooleanResponse False ''error-keypair-json'' []
               ''Cannot find the status of the keypair'')"
proof -
  have s: "Store testWorld = testStore\<lparr>keypairStatuses := []\<rparr>"
    by (simp add: testWorld_def testStore_def)
  note v = generateRequest_verified[OF s]
  have n: "GetKeypairStatus (DB testEnv)
             (KeypairWithPrivateKey.AuthorityID
                \<lparr>KeypairWithPrivateKey.ID = 0, KeypairWithPrivateKey.AuthorityID = ''acme'',
                  PrivateKey = [], KeypairWithPrivateKey.KeyName = ''prod-key''\<rparr>)
             (KeypairWithPrivateKey.KeyName
                \<lparr>KeypairWithPrivateKey.ID = 0, KeypairWithPrivateKey.AuthorityID = ''acme'',
                  PrivateKey = [], KeypairWithPrivateKey.KeyName = ''prod-key''\<rparr>)
             (Store testWorld) = Inl ''NotFoundError''"
    by (simp add: testWorld_facts)
  have p: "CheckUserInAccount (DB testEnv) (Username \<lparr>Username = ''alice''\<rparr>)
             (KeypairWithPrivateKey.AuthorityID
                \<lparr>KeypairWithPrivateKey.ID = 0, KeypairWithPrivateKey.AuthorityID = ''acme'',
                  PrivateKey = [], KeypairWithPrivateKey.KeyName = ''prod-key''\<rparr>)
             (Store testWorld)"
    by (simp add: testWorld_facts)
  have a: "index (Vars statusRequest) ''authorityID''
             = KeypairWithPrivateKey.AuthorityID
                \<lparr>KeypairWithPrivateKey.ID = 0, KeypairWithPrivateKey.AuthorityID = ''acme'',
                  PrivateKey = [], KeypairWithPrivateKey.KeyName = ''prod-key''\<rparr>"
    by (simp add: statusRequest_facts)
  have k: "index (Vars statusRequest) ''keyName''
             = KeypairWithPrivateKey.KeyName
                \<lparr>KeypairWithPrivateKey.ID = 0, KeypairWithPrivateKey.AuthorityID = ''acme'',
                  PrivateKey = [], KeypairWithPrivateKey.KeyName = ''prod-key''\<rparr>"
    by (simp add: statusRequest_facts)
  from KeypairGenerateHandler_leaves_tracker[OF v n statusRequest_facts(1) p a k,
         of newResponseWriter] v testWorld_facts
  show ?thesis by (simp add: lastWritten_formatBooleanResponse)
qed

text \<open>
  The claim as stated fails: the request is accepted with status 202, and the status
  poll issued on the world it returns reports that the status cannot be found.
\<close>

theorem KeypairStatusHandler_after_accept_counterexample:
  "lastWritten (fst (KeypairGenerateHandler testExternals testEnv generateRequest testWorld
                       newResponseWriter))
     = Some (BooleanResponse True [] [] ''/v1/keypairs/status/acme/prod-key'') \<and>
   StatusCode (fst (KeypairGenerateHandler testExternals testEnv generateRequest testWorld
                      newResponseWriter)) = Some StatusAccepted \<and>
   lastWritten (fst (KeypairStatusHandler testExternals testEnv statusRequest
                       (snd (KeypairGenerateHandler testExternals testEnv generateRequest
                               testWorld newResponseWriter))
                       newResponseWriter))
     = Some (BooleanResponse False ''error-keypair-json'' []
               ''Cannot find the status of the keypair'')"
proof -
  have s: "Store testWorld = testStore\<lparr>keypairStatuses := []\<rparr>"
    by (simp add: testWorld_def testStore_def)
  note h = KeypairGenerateHandler_accepted[OF generateRequest_verified[OF s]]
  have 1: "lastWritten (fst (KeypairGenerateHandler testExternals testEnv generateRequest
                               testWorld newResponseWriter))
             = Some (BooleanResponse True [] [] ''/v1/keypairs/status/acme/prod-key'')"
    by (simp add: h lastWritten_formatBooleanResponse)
  have 2: "StatusCode (fst (KeypairGenerateHandler testExternals testEnv generateRequest
                              testWorld newResponseWriter)) = Some StatusAccepted"
    by (simp add: h StatusCode_accepted)
  have 3: "lastWritten (fst (KeypairStatusHandler testExternals testEnv statusRequest
                       (snd (KeypairGenerateHandler testExternals testEnv generateRequest
                               testWorld newResponseWriter))
                       newResponseWriter))
     = Some (BooleanResponse False ''error-keypair-json'' []
               ''Cannot find the status of the keypair'')"
    by (simp add: KeypairStatusHandler_def Let_def statusRequest_facts h testWorld_facts
          lastWritten_formatBooleanResponse)
  from 1 2 3 show ?thesis by simp
qed

subsection \<open>C3: an assertion of the wrong type\<close>

text \<open>
  C3, as amended. For every correctly decoded assertion whose declared type is not
  account-key, the attach-assertion handler fails with \<open>invalid-assertion\<close> and status
  400; the message names the expected type only,
  "An assertion of type 'account-key' is required", whatever the type of the submitted
  assertion; and the keypair is not updated: the world is left as it was and the outcome
  does not depend on \<open>UpdateKeypairAssertion\<close>.
\<close>

theorem KeypairAssertionHandler_wrong_type:
  assumes auth: "checkIsAdminAndGetUserFromJWT ext (Credentials r) = Inr authUser"
      and body: "Body r = JSONBody a"
      and nz: "AssertionRequest.ID a \<noteq> 0"
      and b64: "base64_DecodeString ext (AssertionRequest.Assertion a) = Inr decodedAssertion"
      and dec: "asserts_Decode ext decodedAssertion = Inr assertion"
      and ty: "Type_Name assertion \<noteq> AccountKeyType_Name ext"
  shows "KeypairAssertionHandler ext env r world w0
           = (formatBooleanResponse False ''invalid-assertion'' []
                (assertionTypeRequired (AccountKeyType_Name ext))
                (WriteHeader StatusBadRequest
                   (Header_Set ''Content-Type'' ''application/json; charset=UTF-8'' w0)),
              world) \<and>
         KeypairAssertionHandler ext (env\<lparr>DB := (DB env)\<lparr>UpdateKeypairAssertion := upd\<rparr>\<rparr>)
             r world w0
           = KeypairAssertionHandler ext env r world w0"
  using assms by (simp add: KeypairAssertionHandler_def Let_def)

text \<open>Alice submits a model assertion for keypair 1.\<close>

theorem KeypairAssertionHandler_wrong_type_witness:
  "asserts_Decode testExternals ''type: model'' = Inr modelAssertion \<and>
   Type_Name modelAssertion = ''model'' \<and>
   AccountKeyType_Name testExternals = ''account-key'' \<and>
   lastWritten (fst (KeypairAssertionHandler testExternals testEnv modelRequest testWorld
                       newResponseWriter))
     = Some (BooleanResponse False ''invalid-assertion'' []
               ''An assertion of type 'account-key' is required'') \<and>
   snd (KeypairAssertionHandler testExternals testEnv modelRequest testWorld newResponseWriter)
     = testWorld"
proof -
  have nz: "AssertionRequest.ID
              \<lparr>AssertionRequest.ID = 1, AssertionRequest.Assertion = ''dHlwZTogbW9kZWw=''\<rparr> \<noteq> 0"
    by simp
  have b64: "base64_DecodeString testExternals
               (AssertionRequest.Assertion
                  \<lparr>AssertionRequest.ID = 1, AssertionRequest.Assertion = ''dHlwZTogbW9kZWw=''\<rparr>)
               = Inr ''type: model''"
    by (simp add: modelRequest_facts)
  have ty: "Type_Name modelAssertion \<noteq> AccountKeyType_Name testExternals"
    by (simp add: modelRequest_facts)
  from KeypairAssertionHandler_wrong_type[OF modelRequest_facts(1) modelRequest_facts(2) nz b64
         modelRequest_facts(4) ty, of testEnv testWorld newResponseWriter]
  show ?thesis
    by (simp add: modelRequest_facts lastWritten_formatBooleanResponse assertionTypeRequired_def)
qed

text \<open>
  The claim as stated fails: the message written for a model assertion contains the
  expected type name \<open>account-key\<close> and does not contain the actual type name \<open>model\<close>.
\<close>

theorem KeypairAssertionHandler_wrong_type_counterexample:
  "asserts_Decode testExternals ''type: model'' = Inr modelAssertion \<and>
   Type_Name modelAssertion = ''model'' \<and>
   lastWritten (fst (KeypairAssertionHandler testExternals testEnv modelRequest testWorld
                       newResponseWriter))
     = Some (BooleanResponse False ''invalid-assertion'' []
               ''An assertion of type 'account-key' is required'') \<and>
   sublist ''account-key'' ''An assertion of type 'account-key' is required'' \<and>
   \<not> sublist ''model'' ''An assertion of type 'account-key' is required''"
proof -
  have "KeypairAssertionHandler testExternals testEnv modelRequest testWorld newResponseWriter
          = (formatBooleanResponse False ''invalid-assertion'' []
                (assertionTypeRequired ''account-key'')
                (WriteHeader StatusBadRequest
                   (Header_Set ''Content-Type'' ''application/json; charset=UTF-8''
                      newResponseWriter)),
              testWorld)"
    by (simp add: KeypairAssertionHandler_def Let_def modelRequest_facts)
  then have "lastWritten (fst (KeypairAssertionHandler testExternals testEnv modelRequest
                                 testWorld newResponseWriter))
               = Some (BooleanResponse False ''invalid-assertion'' []
                         ''An assertion of type 'account-key' is required'')"
    by (simp add: lastWritten_formatBooleanResponse assertionTypeRequired_def)
  moreover have "sublist ''account-key'' ''An assertion of type 'account-key' is required''"
    by (simp add: sublist_Cons_right)
  moreover have "\<not> sublist ''model'' ''An assertion of type 'account-key' is required''"
    by (simp add: sublist_Cons_right)
  ultimately show ?thesis by (simp add: modelRequest_facts)
qed

subsection \<open>C4: attaching an account-key assertion\<close>

text \<open>A success is written on one path only: the one on which \<open>UpdateKeypairAssertion\<close>
  was given the keypair built from the assertion's headers, with the requesting user, and
  returned no error.\<close>

lemma KeypairAssertionHandler_success:
  assumes "lastWritten (fst (KeypairAssertionHandler ext env r world w0))
             = Some (BooleanResponse True c sc m)"
  shows "\<exists>authUser a decodedAssertion assertion errorCode s.
           checkIsAdminAndGetUserFromJWT ext (Credentials r) = Inr authUser \<and>
           Body r = JSONBody a \<and>
           AssertionRequest.ID a \<noteq> 0 \<and>
           base64_DecodeString ext (AssertionRequest.Assertion a) = Inr decodedAssertion \<and>
           asserts_Decode ext decodedAssertion = Inr assertion \<and>
           Type_Name assertion = AccountKeyType_Name ext \<and>
           UpdateKeypairAssertion (DB env)
             \<lparr>Keypair.ID = AssertionRequest.ID a,
              Keypair.AuthorityID = HeaderString assertion ''account-id'',
              KeyID = HeaderString assertion ''public-key-sha3-384'',
              Active = False, SealedKey = [],
              Keypair.Assertion = decodedAssertion\<rparr> authUser (Store world)
             = ((errorCode, None), s) \<and>
           snd (KeypairAssertionHandler ext env r world w0) = world\<lparr>Store := s\<rparr>"
  using assms
  by (auto simp: KeypairAssertionHandler_def Let_def lastWritten_formatBooleanResponse
           split: sum.splits body.splits if_splits prod.splits option.splits)

text \<open>What the registry holds after an update it accepted.\<close>

lemma memUpdateKeypairAssertion_ok:
  assumes "memUpdateKeypairAssertion keypair authorization s = ((errorCode, None), s')"
  shows "memCheckUserInAccount (Username authorization) (Keypair.AuthorityID keypair) s \<and>
         list_ex (\<lambda>k. Keypair.ID k = Keypair.ID keypair) (keypairs s') \<and>
         (\<forall>k \<in> set (keypairs s'). Keypair.ID k = Keypair.ID keypair \<longrightarrow>
            Keypair.AuthorityID k = Keypair.AuthorityID keypair \<and>
            KeyID k = KeyID keypair \<and>
            Keypair.Assertion k = Keypair.Assertion keypair)"
proof -
  let ?f = "\<lambda>k. if Keypair.ID k = Keypair.ID keypair
                 then k\<lparr>Keypair.AuthorityID := Keypair.AuthorityID keypair,
                        KeyID := KeyID keypair,
                        Keypair.Assertion := Keypair.Assertion keypair\<rparr>
                 else k"
  from assms
  have perm: "memCheckUserInAccount (Username authorization) (Keypair.AuthorityID keypair) s"
    and found: "list_ex (\<lambda>k. Keypair.ID k = Keypair.ID keypair) (keypairs s)"
    and s': "keypairs s' = map ?f (keypairs s)"
    by (auto simp: memUpdateKeypairAssertion_def split: if_splits)
  from found obtain k where k: "k \<in> set (keypairs s)" "Keypair.ID k = Keypair.ID keypair"
    by (auto simp: list_ex_iff)
  then have "?f k \<in> set (keypairs s')" "Keypair.ID (?f k) = Keypair.ID keypair"
    by (simp_all add: s')
  then have ex: "list_ex (\<lambda>k. Keypair.ID k = Keypair.ID keypair) (keypairs s')"
    unfolding list_ex_iff by blast
  have all: "\<forall>k \<in> set (keypairs s'). Keypair.ID k = Keypair.ID keypair \<longrightarrow>
            Keypair.AuthorityID k = Keypair.AuthorityID keypair \<and>
            KeyID k = KeyID keypair \<and>
            Keypair.Assertion k = Keypair.Assertion keypair"
    by (auto simp: s' split: if_splits)
  from perm ex all show ?thesis by blast
qed

text \<open>
  C4. For every attach-assertion request the handler answers with a success, the
  assertion was decoded, it is an account-key assertion, its \<open>account-id\<close> is an authority
  the requester is permitted to administer, and the stored keypair with the request's id
  has the assertion's \<open>account-id\<close> as its authorityID, its \<open>public-key-sha3-384\<close> as its
  keyID and the decoded assertion text as its assertion.
\<close>

theorem KeypairAssertionHandler_attach:
  assumes ok: "lastWritten (fst (KeypairAssertionHandler ext (memEnv keypairDB) r world w0))
                 = Some (BooleanResponse True c sc m)"
  shows "\<exists>authUser a decodedAssertion assertion.
           checkIsAdminAndGetUserFromJWT ext (Credentials r) = Inr authUser \<and>
           Body r = JSONBody a \<and>
           base64_DecodeString ext (AssertionRequest.Assertion a) = Inr decodedAssertion \<and>
           asserts_Decode ext decodedAssertion = Inr assertion \<and>
           Type_Name assertion = AccountKeyType_Name ext \<and>
           memCheckUserInAccount (Username authUser) (HeaderString assertion ''account-id'')
             (Store world) \<and>
           list_ex (\<lambda>k. Keypair.ID k = AssertionRequest.ID a)
             (keypairs (Store (snd (KeypairAssertionHandler ext (memEnv keypairDB) r world w0)))) \<and>
           (\<forall>k \<in> set (keypairs (Store (snd (KeypairAssertionHandler ext (memEnv keypairDB)
                                               r world w0)))).
              Keypair.ID k = AssertionRequest.ID a \<longrightarrow>
                Keypair.AuthorityID k = HeaderString assertion ''account-id'' \<and>
                KeyID k = HeaderString assertion ''public-key-sha3-384'' \<and>
                Keypair.Assertion k = decodedAssertion)"
proof -
  from KeypairAssertionHandler_success[OF ok]
  obtain authUser a decodedAssertion assertion errorCode s where
    auth: "checkIsAdminAndGetUserFromJWT ext (Credentials r) = Inr authUser" and
    body: "Body r = JSONBody a" and
    b64: "base64_DecodeString ext (AssertionRequest.Assertion a) = Inr decodedAssertion" and
    dec: "asserts_Decode ext decodedAssertion = Inr assertion" and
    ty: "Type_Name assertion = AccountKeyType_Name ext" and
    upd: "UpdateKeypairAssertion (DB (memEnv keypairDB))
             \<lparr>Keypair.ID = AssertionRequest.ID a,
              Keypair.AuthorityID = HeaderString assertion ''account-id'',
              KeyID = HeaderString assertion ''public-key-sha3-384'',
              Active = False, SealedKey = [],
              Keypair.Assertion = decodedAssertion\<rparr> authUser (Store world)
             = ((errorCode, None), s)" and
    w: "snd (KeypairAssertionHandler ext (memEnv keypairDB) r world w0) = world\<lparr>Store := s\<rparr>"
    by blast
  from upd have "memUpdateKeypairAssertion
             \<lparr>Keypair.ID = AssertionRequest.ID a,
              Keypair.AuthorityID = HeaderString assertion ''account-id'',
              KeyID = HeaderString assertion ''public-key-sha3-384'',
              Active = False, SealedKey = [],
              Keypair.Assertion = decodedAssertion\<rparr> authUser (Store world)
             = ((errorCode, None), s)"
    by (simp add: memEnv_def memDatastore_def)
  from memUpdateKeypairAssertion_ok[OF this] w auth body b64 dec ty
  show ?thesis by auto
qed

text \<open>Alice attaches the account-key assertion of \<open>acme\<close> to keypair 2.\<close>

lemma attachRequest_facts:
  "checkIsAdminAndGetUserFromJWT testExternals (Credentials attachRequest)
     = Inr \<lparr>Username = ''alice''\<rparr>"
  "Body attachRequest
     = JSONBody \<lparr>AssertionRequest.ID = 2, AssertionRequest.Assertion = ''dHlwZTogYWNjb3VudC1rZXk=''\<rparr>"
  "base64_DecodeString testExternals ''dHlwZTogYWNjb3VudC1rZXk='' = Inr ''type: account-key''"
  "asserts_Decode testExternals ''type: account-key'' = Inr accountKeyAssertion"
  "Type_Name accountKeyAssertion = AccountKeyType_Name testExternals"
  "HeaderString accountKeyAssertion ''account-id'' = ''acme''"
  "HeaderString accountKeyAssertion ''public-key-sha3-384'' = ''key-sha3''"
  by (simp_all add: testExternals_def attachRequest_def accountKeyAssertion_def HeaderString_def)

lemma attachRequest_update:
  "UpdateKeypairAssertion (DB testEnv)
     \<lparr>Keypair.ID = 2, Keypair.AuthorityID = ''acme'', KeyID = ''key-sha3'', Active = False,
      SealedKey = [], Keypair.Assertion = ''type: account-key''\<rparr>
     \<lparr>Username = ''alice''\<rparr> (Store testWorld)
     = (([], None),
        testStore\<lparr>keypairs :=
          [acmeKeypair,
           otherKeypair\<lparr>Keypair.AuthorityID := ''acme'', KeyID := ''key-sha3'',
                         Keypair.Assertion := ''type: account-key''\<rparr>]\<rparr>)"
  by (simp add: testEnv_def memEnv_def memDatastore_def memUpdateKeypairAssertion_def
        memCheckUserInAccount_def testWorld_def testStore_def acmeKeypair_def otherKeypair_def)

lemma attachRequest_handled:
  "KeypairAssertionHandler testExternals testEnv attachRequest testWorld newResponseWriter
     = (formatBooleanResponse True [] [] []
          (Header_Set ''Content-Type'' ''application/json; charset=UTF-8'' newResponseWriter),
        testWorld\<lparr>Store := testStore\<lparr>keypairs :=
          [acmeKeypair,
           otherKeypair\<lparr>Keypair.AuthorityID := ''acme'', KeyID := ''key-sha3'',
                         Keypair.Assertion := ''type: account-key''\<rparr>]\<rparr>\<rparr>)"
  by (simp add: KeypairAssertionHandler_def Let_def attachRequest_facts attachRequest_update)

theorem KeypairAssertionHandler_attach_witness:
  "lastWritten (fst (KeypairAssertionHandler testExternals (memEnv testKeypairDB) attachRequest
                       testWorld newResponseWriter))
     = Some (BooleanResponse True [] [] []) \<and>
   memCheckUserInAccount ''alice'' (HeaderString accountKeyAssertion ''account-id'')
     (Store testWorld) \<and>
   keypairs (Store (snd (KeypairAssertionHandler testExternals (memEnv testKeypairDB)
                           attachRequest testWorld newResponseWriter)))
     = [acmeKeypair,
        \<lparr>Keypair.ID = 2, Keypair.AuthorityID = ''acme'', KeyID = ''key-sha3'', Active = True,
         SealedKey = ''sealed-2'', Keypair.Assertion = ''type: account-key''\<rparr>]"
proof -
  have ok: "lastWritten (fst (KeypairAssertionHandler testExternals (memEnv testKeypairDB)
                                attachRequest testWorld newResponseWriter))
              = Some (BooleanResponse True [] [] [])"
    using attachRequest_handled
    by (simp add: testEnv_def lastWritten_formatBooleanResponse)
  have p: "memCheckUserInAccount ''alice'' (HeaderString accountKeyAssertion ''account-id'')
             (Store testWorld)"
    by (simp add: attachRequest_facts memCheckUserInAccount_def testWorld_def testStore_def)
  have k: "keypairs (Store (snd (KeypairAssertionHandler testExternals (memEnv testKeypairDB)
                           attachRequest testWorld newResponseWriter)))
     = [acmeKeypair,
        \<lparr>Keypair.ID = 2, Keypair.AuthorityID = ''acme'', KeyID = ''key-sha3'', Active = True,
         SealedKey = ''sealed-2'', Keypair.Assertion = ''type: account-key''\<rparr>]"
    using attachRequest_handled
    by (simp add: testEnv_def otherKeypair_def)
  from KeypairAssertionHandler_attach[OF ok] ok p k show ?thesis by simp
qed

subsection \<open>C5: the signing log is listed for any requester\<close>

text \<open>\<open>SigningLogHandler\<close> never reads who asks: its outcome is the same for every
  credential.\<close>

lemma SigningLogHandler_Credentials:
  "SigningLogHandler ext env (r\<lparr>Credentials := c\<rparr>) world w0
     = SigningLogHandler ext env r world w0"
  by (simp add: SigningLogHandler_def FormValue_def)

text \<open>
  C5 says that every entry of the answer belongs to an authority the requesting user may
  see. The handler at part_001 does not do so: bob, who is not in account \<open>acme\<close>, lists
  the signing log and receives the entry of \<open>acme\<close> with the entry of \<open>other\<close>.
\<close>

theorem SigningLogHandler_unscoped:
  "checkIsAdminAndGetUserFromJWT testExternals (Credentials logRequest)
     = Inr \<lparr>Username = ''bob''\<rparr> \<and>
   \<not> CheckUserInAccount (DB testEnv) ''bob'' (Make acmeLog) (Store testWorld) \<and>
   lastWritten (fst (SigningLogHandler testExternals testEnv logRequest testWorld
                       newResponseWriter))
     = Some (SigningLogResponse True [] [] [] [acmeLog, otherLog])"
proof -
  have f: "FormValue logRequest ''fromID'' = []"
    by (simp add: FormValue_def index_def logRequest_def)
  have "lastWritten (fst (SigningLogHandler testExternals testEnv logRequest testWorld
                            newResponseWriter))
          = Some (SigningLogResponse True [] [] [] [acmeLog, otherLog])"
    by (simp add: SigningLogHandler_def Let_def f testWorld_signing_log
          formatSigningLogResponse_def lastWritten_Write)
  moreover have "\<not> CheckUserInAccount (DB testEnv) ''bob'' (Make acmeLog) (Store testWorld)"
    by (simp add: testEnv_def memEnv_def memDatastore_def memCheckUserInAccount_def
          testWorld_def testStore_def acmeLog_def)
  moreover have "checkIsAdminAndGetUserFromJWT testExternals (Credentials logRequest)
                   = Inr \<lparr>Username = ''bob''\<rparr>"
    by (simp add: testExternals_def logRequest_def)
  ultimately show ?thesis by simp
qed

subsection \<open>C6: a key that cannot be imported is never stored\<close>

text \<open>
  C6. For every create-keypair request whose armored private key is malformed
  (\<open>ImportSigningKey\<close> returns an error for the decoded body), the handler answers with
  a failure and persists no keypair: the world it leaves is the world it found, and its
  outcome does not depend on \<open>PutKeypair\<close>, whatever that method does, so the method is
  never invoked. When \<open>verifyKeypair\<close> accepts the request, the answer is
  \<open>error-keypair-store\<close> with status 400 and the importer's message.
\<close>

theorem KeypairCreateHandler_import_failure:
  assumes body: "Body r = JSONBody decoded"
      and imp: "ImportSigningKey (KeypairDB env)
                  (strings_TrimSpace ext (KeypairWithPrivateKey.AuthorityID decoded))
                  (PrivateKey decoded) = Inl err"
  shows "(\<exists>code msg. lastWritten (fst (KeypairCreateHandler ext env r world w0))
                        = Some (BooleanResponse False code [] msg)) \<and>
         snd (KeypairCreateHandler ext env r world w0) = world \<and>
         KeypairCreateHandler ext (env\<lparr>DB := (DB env)\<lparr>PutKeypair := put\<rparr>\<rparr>) r world w0
           = KeypairCreateHandler ext env r world w0 \<and>
         (\<forall>kp w. verifyKeypair ext env r (Store world) w0 = ((kp, True), w) \<longrightarrow>
            KeypairCreateHandler ext env r world w0
              = (formatBooleanResponse False ''error-keypair-store'' [] err
                   (WriteHeader StatusBadRequest w), world))"
proof -
  obtain kp ok w where v: "verifyKeypair ext env r (Store world) w0 = ((kp, ok), w)"
    by (metis prod.exhaust)
  show ?thesis
  proof (cases ok)
    case False
    with v have h: "KeypairCreateHandler ext env r world w0 = (w, world)"
      by (simp add: KeypairCreateHandler_def)
    from v False
    have h': "KeypairCreateHandler ext (env\<lparr>DB := (DB env)\<lparr>PutKeypair := put\<rparr>\<rparr>) r world w0
                = (w, world)"
      by (simp add: KeypairCreateHandler_def verifyKeypair_PutKeypair)
    from v False have "verifyKeypair ext env r (Store world) w0 = ((kp, False), w)"
      by simp
    then have "\<exists>code msg. lastWritten w = Some (BooleanResponse False code [] msg)"
      by (rule verifyKeypair_failed)
    with h h' v False show ?thesis by simp
  next
    case True
    with v verifyKeypair_ok[of ext env r "Store world" w0 kp w] body
    have kp: "kp = decoded\<lparr>KeypairWithPrivateKey.AuthorityID :=
                     strings_TrimSpace ext (KeypairWithPrivateKey.AuthorityID decoded)\<rparr>"
      by auto
    with imp
    have i: "ImportSigningKey (KeypairDB env) (KeypairWithPrivateKey.AuthorityID kp)
               (PrivateKey kp) = Inl err"
      by simp
    with v True
    have h: "KeypairCreateHandler ext env r world w0
               = (formatBooleanResponse False ''error-keypair-store'' [] err
                    (WriteHeader StatusBadRequest w), world)"
      by (simp add: KeypairCreateHandler_def)
    from v True i
    have h': "KeypairCreateHandler ext (env\<lparr>DB := (DB env)\<lparr>PutKeypair := put\<rparr>\<rparr>) r world w0
                = (formatBooleanResponse False ''error-keypair-store'' [] err
                     (WriteHeader StatusBadRequest w), world)"
      by (simp add: KeypairCreateHandler_def verifyKeypair_PutKeypair)
    from h h' v True show ?thesis by (simp add: lastWritten_formatBooleanResponse)
  qed
qed

text \<open>At alice's request to import \<open>not a key\<close> for \<open>acme\<close>: \<open>verifyKeypair\<close> accepts, the
  importer fails, and the answer is \<open>error-keypair-store\<close> in an unchanged world.\<close>

theorem KeypairCreateHandler_import_failure_witness:
  "Body createRequest
     = JSONBody \<lparr>KeypairWithPrivateKey.ID = 0, KeypairWithPrivateKey.AuthorityID = '' acme '',
                 PrivateKey = ''not a key'', KeypairWithPrivateKey.KeyName = []\<rparr> \<and>
   ImportSigningKey (KeypairDB testEnv) ''acme'' ''not a key''
     = Inl ''cannot decode armored private key'' \<and>
   fst (verifyKeypair testExternals testEnv createRequest (Store testWorld) newResponseWriter)
     = (\<lparr>KeypairWithPrivateKey.ID = 0, KeypairWithPrivateKey.AuthorityID = ''acme'',
          PrivateKey = ''not a key'', KeypairWithPrivateKey.KeyName = []\<rparr>, True) \<and>
   lastWritten (fst (KeypairCreateHandler testExternals testEnv createRequest testWorld
                       newResponseWriter))
     = Some (BooleanResponse False ''error-keypair-store'' []
               ''cannot decode armored private key'') \<and>
   snd (KeypairCreateHandler testExternals testEnv createRequest testWorld newResponseWriter)
     = testWorld"
proof -
  let ?d = "\<lparr>KeypairWithPrivateKey.ID = 0, KeypairWithPrivateKey.AuthorityID = '' acme '',
              PrivateKey = ''not a key'', KeypairWithPrivateKey.KeyName = []\<rparr>"
  have b: "Body createRequest = JSONBody ?d"
    by (simp add: createRequest_def)
  have i: "ImportSigningKey (KeypairDB testEnv)
             (strings_TrimSpace testExternals (KeypairWithPrivateKey.AuthorityID ?d))
             (PrivateKey ?d) = Inl ''cannot decode armored private key''"
    by (simp add: testEnv_def memEnv_def testKeypairDB_def)
  have i': "ImportSigningKey (KeypairDB testEnv) ''acme'' ''not a key''
              = Inl ''cannot decode armored private key''"
    by (simp add: testEnv_def memEnv_def testKeypairDB_def)
  have v: "verifyKeypair testExternals testEnv createRequest (Store testWorld) newResponseWriter
             = ((\<lparr>KeypairWithPrivateKey.ID = 0, KeypairWithPrivateKey.AuthorityID = ''acme'',
                  PrivateKey = ''not a key'', KeypairWithPrivateKey.KeyName = []\<rparr>, True),
                Header_Set ''Content-Type'' ''application/json; charset=UTF-8''
                  newResponseWriter)"
    by (simp add: verifyKeypair_def Let_def createRequest_def testExternals_def TrimSpace_acme
          testEnv_def memEnv_def memDatastore_def memCheckUserInAccount_def testWorld_def
          testStore_def)
  from KeypairCreateHandler_import_failure[OF b i, of testWorld newResponseWriter] b i' v
  show ?thesis by (simp add: lastWritten_formatBooleanResponse)
qed

subsection \<open>C8: the keypair list is scoped to the user and the account\<close>

text \<open>The loop keeps, in order, the keypairs of the selected account.\<close>

lemma filterKeypairs_filter:
  "filterKeypairs accountCode kept userKeypairs
     = kept @ filter (\<lambda>k. Keypair.AuthorityID k = accountCode) userKeypairs"
  by (induction userKeypairs arbitrary: kept) auto

text \<open>
  C8. For every keypair-list request for an account code, every keypair of the returned
  list is one of the keypairs \<open>ListAllowedKeypairs\<close> gives for the requesting user, and
  its \<open>AuthorityID\<close> is the requested account code: no keypair of another authority is
  returned.
\<close>

theorem KeypairListHandler_scoped:
  assumes "k \<in> set (returnedKeypairs (fst (KeypairListHandler ext env r world w0)))"
  shows "Keypair.AuthorityID k = index (Vars r) ''account_code'' \<and>
         (\<exists>authUser userKeypairs.
            checkIsAdminAndGetUserFromJWT ext (Credentials r) = Inr authUser \<and>
            ListAllowedKeypairs (DB env) authUser (Store world) = Inr userKeypairs \<and>
            k \<in> set userKeypairs)"
  using assms
  by (auto simp: KeypairListHandler_def Let_def returnedKeypairs_format filterKeypairs_filter
           split: sum.splits)

text \<open>Alice may see the keypairs of \<open>acme\<close> and of \<open>other\<close>; her list for \<open>acme\<close> holds the
  keypair of \<open>acme\<close> only.\<close>

theorem KeypairListHandler_scoped_witness:
  "returnedKeypairs (fst (KeypairListHandler testExternals testEnv listRequest testWorld
                            newResponseWriter)) = [acmeKeypair] \<and>
   ListAllowedKeypairs (DB testEnv) \<lparr>Username = ''alice''\<rparr> (Store testWorld)
     = Inr [acmeKeypair, otherKeypair] \<and>
   Keypair.AuthorityID acmeKeypair = index (Vars listRequest) ''account_code''"
proof -
  have l: "ListAllowedKeypairs (DB testEnv) \<lparr>Username = ''alice''\<rparr> (Store testWorld)
             = Inr [acmeKeypair, otherKeypair]"
    by (simp add: testEnv_def memEnv_def memDatastore_def memListAllowedKeypairs_def
          memCheckUserInAccount_def testWorld_def testStore_def acmeKeypair_def otherKeypair_def)
  have u: "checkIsAdminAndGetUserFromJWT testExternals (Credentials listRequest)
             = Inr \<lparr>Username = ''alice''\<rparr>"
    by (simp add: testExternals_def listRequest_def)
  have ix: "index (Vars listRequest) ''account_code'' = ''acme''"
    by (simp add: listRequest_def index_def)
  have e: "returnedKeypairs (fst (KeypairListHandler testExternals testEnv listRequest testWorld
                                    newResponseWriter)) = [acmeKeypair]"
    by (simp add: KeypairListHandler_def Let_def u l ix returnedKeypairs_format
          filterKeypairs_filter acmeKeypair_def otherKeypair_def)
  then have m: "acmeKeypair \<in> set (returnedKeypairs (fst (KeypairListHandler testExternals
                   testEnv listRequest testWorld newResponseWriter)))"
    by simp
  from KeypairListHandler_scoped[OF m] e l show ?thesis by simp
qed

subsection \<open>C9: the signing log's \<open>fromID\<close> parameter\<close>

text \<open>
  C9. For every signing-log list request whose \<open>fromID\<close> parameter is absent (or empty)
  or is not a parseable integer, the handler reports no error for the parameter: it
  lists with \<open>MaxFromID\<close>, and its answer is the answer of that listing, a failure only
  when \<open>ListSigningLog\<close> itself fails.
\<close>

theorem SigningLogHandler_default_fromID:
  assumes "FormValue r ''fromID'' = [] \<or>
           (\<exists>err. strconv_Atoi ext (FormValue r ''fromID'') = Inl err)"
  shows "SigningLogHandler ext env r world w0 =
           (case ListSigningLog (DB env) (MaxFromID ext) (Store world) of
              Inl err \<Rightarrow>
                (formatSigningLogResponse False ''error-fetch-signinglog'' [] err []
                   (WriteHeader StatusInternalServerError
                      (Header_Set ''Content-Type'' ''application/json; charset=UTF-8'' w0)),
                 world)
            | Inr logs \<Rightarrow>
                (formatSigningLogResponse True [] [] [] logs
                   (WriteHeader StatusOK
                      (Header_Set ''Content-Type'' ''application/json; charset=UTF-8'' w0)),
                 world))"
  using assms by (auto simp: SigningLogHandler_def Let_def split: sum.splits)

text \<open>With \<open>fromID=12x\<close>, and with no \<open>fromID\<close> at all, the handler lists from \<open>MaxFromID\<close>
  and answers with the whole log.\<close>

theorem SigningLogHandler_default_fromID_witness:
  "strconv_Atoi testExternals (FormValue badFromIDRequest ''fromID'') = Inl ''invalid syntax'' \<and>
   MaxFromID testExternals = 2147483647 \<and>
   lastWritten (fst (SigningLogHandler testExternals testEnv badFromIDRequest testWorld
                       newResponseWriter))
     = Some (SigningLogResponse True [] [] [] [acmeLog, otherLog]) \<and>
   FormValue logRequest ''fromID'' = [] \<and>
   lastWritten (fst (SigningLogHandler testExternals testEnv logRequest testWorld
                       newResponseWriter))
     = Some (SigningLogResponse True [] [] [] [acmeLog, otherLog])"
proof -
  have a: "strconv_Atoi testExternals (FormValue badFromIDRequest ''fromID'')
             = Inl ''invalid syntax''"
    by (simp add: testExternals_def FormValue_def index_def badFromIDRequest_def Atoi_12x)
  then have h: "FormValue badFromIDRequest ''fromID'' = [] \<or>
           (\<exists>err. strconv_Atoi testExternals (FormValue badFromIDRequest ''fromID'') = Inl err)"
    by blast
  note l = testWorld_signing_log
  have m: "MaxFromID testExternals = 2147483647"
    by (simp add: testExternals_def)
  have f: "FormValue logRequest ''fromID'' = []"
    by (simp add: FormValue_def index_def logRequest_def)
  then have h': "FormValue logRequest ''fromID'' = [] \<or>
           (\<exists>err. strconv_Atoi testExternals (FormValue logRequest ''fromID'') = Inl err)"
    by blast
  from SigningLogHandler_default_fromID[OF h, of testEnv testWorld newResponseWriter]
    SigningLogHandler_default_fromID[OF h', of testEnv testWorld newResponseWriter] a l m f
  show ?thesis
    by (simp add: formatSigningLogResponse_def lastWritten_Write)
qed

subsection \<open>C10: an attach-assertion request without a keypair id\<close>

text \<open>With the id at 0 the handler stops at line 223, or before it at the JWT check.\<close>

lemma KeypairAssertionHandler_zero_id_any:
  assumes "Body r = JSONBody a" and "AssertionRequest.ID a = 0"
  shows "KeypairAssertionHandler ext env r world w0 =
           (let w = Header_Set ''Content-Type'' ''application/json; charset=UTF-8'' w0 in
            case checkIsAdminAndGetUserFromJWT ext (Credentials r) of
              Inl err \<Rightarrow> (formatBooleanResponse False ''error-auth'' [] [] w, world)
            | Inr authUser \<Rightarrow>
                (formatBooleanResponse False ''invalid-keypair'' [] ''ID of keypair not provided''
                   (WriteHeader StatusBadRequest w), world))"
  using assms by (simp add: KeypairAssertionHandler_def Let_def split: sum.splits)

text \<open>
  C10. For every attach-assertion request whose JSON body omits the keypair id or gives
  it as 0 (the decoded request has \<open>ID = 0\<close>), the request is rejected before the
  assertion is base64-decoded or parsed: the answer is a failure, the world is left as
  it was, and the outcome does not depend on \<open>base64.DecodeString\<close>, \<open>asserts.Decode\<close>
  or \<open>UpdateKeypairAssertion\<close>, whatever they do, so a keypair with id 0 never has an
  assertion attached. For a request that passes the JWT check the answer is
  \<open>invalid-keypair\<close>, "ID of keypair not provided", with status 400.
\<close>

theorem KeypairAssertionHandler_zero_id:
  assumes body: "Body r = JSONBody a" and zero: "AssertionRequest.ID a = 0"
  shows "(\<exists>code msg. lastWritten (fst (KeypairAssertionHandler ext env r world w0))
                        = Some (BooleanResponse False code [] msg)) \<and>
         snd (KeypairAssertionHandler ext env r world w0) = world \<and>
         KeypairAssertionHandler (ext\<lparr>base64_DecodeString := b64, asserts_Decode := dec\<rparr>)
             (env\<lparr>DB := (DB env)\<lparr>UpdateKeypairAssertion := upd\<rparr>\<rparr>) r world w0
           = KeypairAssertionHandler ext env r world w0 \<and>
         (\<forall>authUser. checkIsAdminAndGetUserFromJWT ext (Credentials r) = Inr authUser \<longrightarrow>
            KeypairAssertionHandler ext env r world w0
              = (formatBooleanResponse False ''invalid-keypair'' [] ''ID of keypair not provided''
                   (WriteHeader StatusBadRequest
                      (Header_Set ''Content-Type'' ''application/json; charset=UTF-8'' w0)),
                 world))"
proof -
  note h = KeypairAssertionHandler_zero_id_any[OF body zero]
  have 1: "\<exists>code msg. lastWritten (fst (KeypairAssertionHandler ext env r world w0))
                        = Some (BooleanResponse False code [] msg)"
    by (simp add: h Let_def lastWritten_formatBooleanResponse split: sum.splits)
  have 2: "snd (KeypairAssertionHandler ext env r world w0) = world"
    by (simp add: h Let_def split: sum.splits)
  have 3: "KeypairAssertionHandler (ext\<lparr>base64_DecodeString := b64, asserts_Decode := dec\<rparr>)
             (env\<lparr>DB := (DB env)\<lparr>UpdateKeypairAssertion := upd\<rparr>\<rparr>) r world w0
           = KeypairAssertionHandler ext env r world w0"
    by (simp add: h Let_def split: sum.splits)
  have 4: "\<forall>authUser. checkIsAdminAndGetUserFromJWT ext (Credentials r) = Inr authUser \<longrightarrow>
            KeypairAssertionHandler ext env r world w0
              = (formatBooleanResponse False ''invalid-keypair'' [] ''ID of keypair not provided''
                   (WriteHeader StatusBadRequest
                      (Header_Set ''Content-Type'' ''application/json; charset=UTF-8'' w0)),
                 world)"
    by (simp add: h Let_def)
  from 1 2 3 4 show ?thesis by blast
qed

text \<open>Alice's request with id 0 and a well-formed account-key assertion.\<close>

theorem KeypairAssertionHandler_zero_id_witness:
  "Body zeroIdRequest
     = JSONBody \<lparr>AssertionRequest.ID = 0, AssertionRequest.Assertion = ''dHlwZTogYWNjb3VudC1rZXk=''\<rparr> \<and>
   checkIsAdminAndGetUserFromJWT testExternals (Credentials zeroIdRequest)
     = Inr \<lparr>Username = ''alice''\<rparr> \<and>
   lastWritten (fst (KeypairAssertionHandler testExternals testEnv zeroIdRequest testWorld
                       newResponseWriter))
     = Some (BooleanResponse False ''invalid-keypair'' [] ''ID of keypair not provided'') \<and>
   snd (KeypairAssertionHandler testExternals testEnv zeroIdRequest testWorld newResponseWriter)
     = testWorld"
proof -
  have b: "Body zeroIdRequest
     = JSONBody \<lparr>AssertionRequest.ID = 0, AssertionRequest.Assertion = ''dHlwZTogYWNjb3VudC1rZXk=''\<rparr>"
    by (simp add: zeroIdRequest_def)
  have z: "AssertionRequest.ID
             \<lparr>AssertionRequest.ID = 0, AssertionRequest.Assertion = ''dHlwZTogYWNjb3VudC1rZXk=''\<rparr> = 0"
    by simp
  have u: "checkIsAdminAndGetUserFromJWT testExternals (Credentials zeroIdRequest)
     = Inr \<lparr>Username = ''alice''\<rparr>"
    by (simp add: testExternals_def zeroIdRequest_def)
  from KeypairAssertionHandler_zero_id[OF b z, of testExternals testEnv testWorld newResponseWriter]
    b u
  show ?thesis by (simp add: lastWritten_formatBooleanResponse)
qed

section \<open>Properties of the device nonce issuer\<close>

text \<open>
  C7. Validating an unknown value fails with \<open>NonceNotFoundError\<close>; validating a nonce
  after its expiry deadline fails with \<open>NonceExpiredError\<close>; and after a first successful
  validation every later validation of the same value fails: with
  \<open>NonceAlreadyUsedError\<close> while the nonce is still within its time-to-live, with
  \<open>NonceExpiredError\<close> once it is past it. A failed validation leaves the table as it
  was.
\<close>

theorem ValidateDeviceNonce_errors:
  "(nonces v = None \<longrightarrow>
      ValidateDeviceNonce ttl now v nonces = (Some NonceNotFoundError, nonces)) \<and>
   (\<forall>n. nonces v = Some n \<and> CreatedAt n + ttl < now \<longrightarrow>
      ValidateDeviceNonce ttl now v nonces = (Some NonceExpiredError, nonces)) \<and>
   (\<forall>n nonces' later.
      nonces v = Some n \<and> ValidateDeviceNonce ttl now v nonces = (None, nonces') \<longrightarrow>
        ValidateDeviceNonce ttl later v nonces'
          = (Some (if CreatedAt n + ttl < later then NonceExpiredError
                   else NonceAlreadyUsedError), nonces'))"
  by (auto simp: ValidateDeviceNonce_def split: option.splits if_splits)

text \<open>A nonce issued at 100 with a time-to-live of 600: unknown value, late validation,
  first validation at 150, second validation at 200 and at 701.\<close>

theorem ValidateDeviceNonce_errors_witness:
  "testNonces ''n0'' = None \<and>
   fst (ValidateDeviceNonce 600 150 ''n0'' testNonces) = Some NonceNotFoundError \<and>
   testNonces ''n1'' = Some \<lparr>CreatedAt = 100, Used = False\<rparr> \<and>
   fst (ValidateDeviceNonce 600 701 ''n1'' testNonces) = Some NonceExpiredError \<and>
   fst (ValidateDeviceNonce 600 150 ''n1'' testNonces) = None \<and>
   fst (ValidateDeviceNonce 600 200 ''n1'' (snd (ValidateDeviceNonce 600 150 ''n1'' testNonces)))
     = Some NonceAlreadyUsedError \<and>
   fst (ValidateDeviceNonce 600 701 ''n1'' (snd (ValidateDeviceNonce 600 150 ''n1'' testNonces)))
     = Some NonceExpiredError"
proof -
  have n0: "testNonces ''n0'' = None"
    by (simp add: testNonces_def)
  have n1: "testNonces ''n1'' = Some \<lparr>CreatedAt = 100, Used = False\<rparr>"
    by (simp add: testNonces_def)
  have first: "ValidateDeviceNonce 600 150 ''n1'' testNonces
                 = (None, testNonces(''n1'' \<mapsto> \<lparr>CreatedAt = 100, Used = True\<rparr>))"
    by (simp add: ValidateDeviceNonce_def n1)
  have e: "CreatedAt \<lparr>CreatedAt = 100, Used = False\<rparr> + 600 < (701::int)"
    by simp
  from ValidateDeviceNonce_errors[of testNonces "''n0''" 600 150] n0
  have 1: "fst (ValidateDeviceNonce 600 150 ''n0'' testNonces) = Some NonceNotFoundError"
    by simp
  from ValidateDeviceNonce_errors[of testNonces "''n1''" 600 701] n1 e
  have 2: "fst (ValidateDeviceNonce 600 701 ''n1'' testNonces) = Some NonceExpiredError"
    by simp
  from ValidateDeviceNonce_errors[of testNonces "''n1''" 600 150] n1 first
  have 3: "\<forall>later. ValidateDeviceNonce 600 later ''n1''
                        (testNonces(''n1'' \<mapsto> \<lparr>CreatedAt = 100, Used = True\<rparr>))
             = (Some (if 700 < later then NonceExpiredError else NonceAlreadyUsedError),
                testNonces(''n1'' \<mapsto> \<lparr>CreatedAt = 100, Used = True\<rparr>))"
    by simp
  from n0 n1 1 2 3 first show ?thesis by simp
qed

end
